theory Spec2Isabelle
  imports Main "HOL-Library.Monad_Syntax"
begin

section \<open>Strings of the host language\<close>

text \<open>
  A source text is a list of code units. The model keeps the code units below 256 (one
  \<^typ>\<open>char\<close> each), which covers every character the extractors' patterns mention.
  The character classes are those of the JavaScript regular expressions the repository
  uses without the \<^verbatim>\<open>u\<close> flag: \<^verbatim>\<open>\d\<close>, \<^verbatim>\<open>\w\<close> (ASCII only) and
  \<^verbatim>\<open>\s\<close> (white space and line terminators, also what \<^verbatim>\<open>trim()\<close> strips).
\<close>

definition isDigit :: "char \<Rightarrow> bool" where
  "isDigit c = (let n = (of_char c :: nat) in 48 \<le> n \<and> n \<le> 57)"

definition isWordChar :: "char \<Rightarrow> bool" where
  "isWordChar c = (let n = (of_char c :: nat) in
     (97 \<le> n \<and> n \<le> 122) \<or> (65 \<le> n \<and> n \<le> 90) \<or> (48 \<le> n \<and> n \<le> 57) \<or> n = 95)"

definition isSpace :: "char \<Rightarrow> bool" where
  "isSpace c = (let n = (of_char c :: nat) in (9 \<le> n \<and> n \<le> 13) \<or> n = 32 \<or> n = 160)"

definition isLineTerminator :: "char \<Rightarrow> bool" where
  "isLineTerminator c = (let n = (of_char c :: nat) in n = 10 \<or> n = 13)"

definition toUpperChar :: "char \<Rightarrow> char" where
  "toUpperChar c = (let n = (of_char c :: nat) in
     if 97 \<le> n \<and> n \<le> 122 then char_of (n - 32) else c)"

definition toLowerChar :: "char \<Rightarrow> char" where
  "toLowerChar c = (let n = (of_char c :: nat) in
     if (65 \<le> n \<and> n \<le> 90) \<or> (192 \<le> n \<and> n \<le> 222 \<and> n \<noteq> 215) then char_of (n + 32) else c)"

text \<open>
  A letter's five low bits (least significant first): between 1 and 26. It serves the
  evaluation of the functions above on the bits of a character.
\<close>

definition low5_letter :: "bool \<Rightarrow> bool \<Rightarrow> bool \<Rightarrow> bool \<Rightarrow> bool \<Rightarrow> bool" where
  "low5_letter b0 b1 b2 b3 b4 =
     ((b0 \<or> b1 \<or> b2 \<or> b3 \<or> b4) \<and> \<not> (b4 \<and> b3 \<and> (b2 \<or> (b1 \<and> b0))))"

definition toLowerCase :: "string \<Rightarrow> string" where
  "toLowerCase s = map toLowerChar s"

definition trim :: "string \<Rightarrow> string" where
  "trim s = rev (dropWhile isSpace (rev (dropWhile isSpace s)))"

definition startsWith :: "string \<Rightarrow> string \<Rightarrow> bool" where
  "startsWith s p = (take (length p) s = p)"

definition endsWith :: "string \<Rightarrow> string \<Rightarrow> bool" where
  "endsWith s p = (length p \<le> length s \<and> drop (length s - length p) s = p)"

fun str_includes :: "string \<Rightarrow> string \<Rightarrow> bool" where
  "str_includes [] p = (p = [])"
| "str_includes (c # s) p = (startsWith (c # s) p \<or> str_includes s p)"

text \<open>\<^verbatim>\<open>s.split(sep)\<close> for a one-character separator: never an empty list.\<close>

fun splitOn :: "char \<Rightarrow> string \<Rightarrow> string list" where
  "splitOn sep [] = [[]]"
| "splitOn sep (c # s) =
     (if c = sep then [] # splitOn sep s
      else (case splitOn sep s of [] \<Rightarrow> [[c]] | x # xs \<Rightarrow> (c # x) # xs))"

fun join :: "string \<Rightarrow> string list \<Rightarrow> string" where
  "join sep [] = []"
| "join sep [x] = x"
| "join sep (x # y # ys) = x @ sep @ join sep (y # ys)"

text \<open>A \<^verbatim>\<open>Set<string>\<close> in insertion order, as \<^verbatim>\<open>Array.from\<close> reads it.\<close>

definition set_add :: "'a list \<Rightarrow> 'a \<Rightarrow> 'a list" where
  "set_add xs x = (if x \<in> set xs then xs else xs @ [x])"

section \<open>Regular expressions\<close>

text \<open>
  The extractors are written with regular expressions, so the model carries a matcher
  for the fragment they use: literals, classes, sequence, alternation, greedy and lazy
  bounded repetition, capture groups, the anchors and the word boundary. A matcher maps
  a position (the character before it, if any, and the text from it on) and the captures
  so far to the list of its outcomes in the order a backtracking engine tries them; the
  first outcome is the match the engine reports.
\<close>

datatype citem = Ch char | Rng char char | Dig | Wrd | Spc | NDig | NWrd | NSpc

datatype regex =
    Lit string
  | Dot
  | Set "citem list"
  | NSet "citem list"
  | Seq regex regex
  | Alt regex regex
  | Quant bool nat "nat option" regex
  | Group nat regex
  | Bol
  | Eol
  | WordB

type_synonym mstate = "char option \<times> string \<times> string"
type_synonym caps = "(nat \<times> string) list"
type_synonym matcher = "mstate \<Rightarrow> caps \<Rightarrow> (mstate \<times> caps) list"

text \<open>
  A position \<open>(prev, rest, acc)\<close>: the character before it, the text from it on, and
  the characters consumed since the match (or the enclosing group) began, last first.
\<close>

definition st_rest :: "mstate \<Rightarrow> string" where
  "st_rest st = fst (snd st)"

fun citem_match :: "bool \<Rightarrow> citem \<Rightarrow> char \<Rightarrow> bool" where
  "citem_match ci (Ch d) c = (if ci then toUpperChar c = toUpperChar d else c = d)"
| "citem_match ci (Rng a b) c =
     (if (of_char a :: nat) \<le> of_char c \<and> (of_char c :: nat) \<le> of_char b then True
      else ci \<and> (\<exists>d \<in> set (map char_of [of_char a ..< Suc (of_char b)] :: char list).
                  toUpperChar d = toUpperChar c))"
| "citem_match ci Dig c = isDigit c"
| "citem_match ci Wrd c = isWordChar c"
| "citem_match ci Spc c = isSpace c"
| "citem_match ci NDig c = (\<not> isDigit c)"
| "citem_match ci NWrd c = (\<not> isWordChar c)"
| "citem_match ci NSpc c = (\<not> isSpace c)"

fun cset_match :: "bool \<Rightarrow> citem list \<Rightarrow> char \<Rightarrow> bool" where
  "cset_match ci [] c = False"
| "cset_match ci (i # its) c = (if citem_match ci i c then True else cset_match ci its c)"

fun one_char :: "(char \<Rightarrow> bool) \<Rightarrow> matcher" where
  "one_char p (prev, [], acc) cs = []"
| "one_char p (prev, c # rest, acc) cs = (if p c then [((Some c, rest, c # acc), cs)] else [])"

fun lit_match :: "bool \<Rightarrow> string \<Rightarrow> matcher" where
  "lit_match ci [] st cs = [(st, cs)]"
| "lit_match ci (d # ds) (prev, [], acc) cs = []"
| "lit_match ci (d # ds) (prev, c # rest, acc) cs =
     (if citem_match ci (Ch d) c then lit_match ci ds (Some c, rest, c # acc) cs else [])"

fun bindm :: "(mstate \<times> caps) list \<Rightarrow> matcher \<Rightarrow> (mstate \<times> caps) list" where
  "bindm [] f = []"
| "bindm ((st, cs) # rs) f = f st cs @ bindm rs f"

definition dec_max :: "nat option \<Rightarrow> nat option" where
  "dec_max mx = (case mx of None \<Rightarrow> None | Some k \<Rightarrow> Some (k - 1))"

text \<open>
  Repetition between \<open>mn\<close> and \<open>mx\<close> times (\<open>None\<close>: unbounded), greedy when \<open>g\<close>.
  Once the minimum is reached an iteration that consumes nothing is dropped, as the
  language's engine does; this is also what makes the repetition end.
\<close>

function quant :: "bool \<Rightarrow> nat \<Rightarrow> nat option \<Rightarrow> matcher \<Rightarrow> matcher"
  and quant_iter :: "bool \<Rightarrow> nat \<Rightarrow> nat option \<Rightarrow> matcher \<Rightarrow> nat \<Rightarrow>
        (mstate \<times> caps) list \<Rightarrow> (mstate \<times> caps) list"
where
  "quant g mn mx f st cs =
     (if mx = Some 0 then [(st, cs)]
      else if 0 < mn then quant_iter g mn mx f (length (st_rest st)) (f st cs)
      else if g then quant_iter g mn mx f (length (st_rest st)) (f st cs) @ [(st, cs)]
      else (st, cs) # quant_iter g mn mx f (length (st_rest st)) (f st cs))"
| "quant_iter g mn mx f n [] = []"
| "quant_iter g mn mx f n ((st', cs') # rs) =
     (if mn = 0 \<and> n \<le> length (st_rest st') then []
      else quant g (mn - 1) (dec_max mx) f st' cs') @ quant_iter g mn mx f n rs"
  by pat_completeness auto
termination
  apply (relation "inv_image (less_than <*lex*> less_than <*lex*> less_than <*lex*> less_than)
     (\<lambda>x. case x of
        Inl (g, mn, mx, f, st, cs) \<Rightarrow> (mn, length (st_rest st), 1::nat, 0::nat)
      | Inr (g, mn, mx, f, n, rs) \<Rightarrow> (mn, n, 0, length rs))")
  apply auto
  done

declare quant.simps [simp del]

text \<open>The repetition of a single-character matcher, by recursion on the text.\<close>

fun quantc :: "bool \<Rightarrow> nat \<Rightarrow> nat option \<Rightarrow> (char \<Rightarrow> bool) \<Rightarrow> matcher" where
  "quantc g mn mx p (prev, [], acc) cs =
     (if mx = Some 0 \<or> mn = 0 then [((prev, [], acc), cs)] else [])"
| "quantc g mn mx p (prev, c # rest, acc) cs =
     (if mx = Some 0 then [((prev, c # rest, acc), cs)]
      else if 0 < mn then
        (if p c then quantc g (mn - 1) (dec_max mx) p (Some c, rest, c # acc) cs else [])
      else if g then
        (if p c then quantc g 0 (dec_max mx) p (Some c, rest, c # acc) cs else [])
          @ [((prev, c # rest, acc), cs)]
      else ((prev, c # rest, acc), cs)
             # (if p c then quantc g 0 (dec_max mx) p (Some c, rest, c # acc) cs else []))"

text \<open>
  A capture group matches its body on a fresh accumulator and records what the body
  consumed.
\<close>

fun set_group :: "nat \<Rightarrow> string \<Rightarrow> (mstate \<times> caps) list \<Rightarrow> (mstate \<times> caps) list" where
  "set_group n acc0 [] = []"
| "set_group n acc0 (((prev', rest', acc'), cs') # rs) =
     ((prev', rest', acc' @ acc0), (n, rev acc') # cs') # set_group n acc0 rs"

definition prev_word :: "char option \<Rightarrow> bool" where
  "prev_word prev = (case prev of None \<Rightarrow> False | Some c \<Rightarrow> isWordChar c)"

definition next_word :: "string \<Rightarrow> bool" where
  "next_word rest = (case rest of [] \<Rightarrow> False | c # _ \<Rightarrow> isWordChar c)"

primrec rmatch :: "regex \<Rightarrow> bool \<Rightarrow> matcher" where
  "rmatch (Lit w) ci = lit_match ci w"
| "rmatch Dot ci = one_char (\<lambda>c. \<not> isLineTerminator c)"
| "rmatch (Set its) ci = one_char (cset_match ci its)"
| "rmatch (NSet its) ci = one_char (\<lambda>c. \<not> cset_match ci its c)"
| "rmatch (Seq r1 r2) ci = (\<lambda>st cs. bindm (rmatch r1 ci st cs) (rmatch r2 ci))"
| "rmatch (Alt r1 r2) ci = (\<lambda>st cs. rmatch r1 ci st cs @ rmatch r2 ci st cs)"
| "rmatch (Quant g mn mx r) ci = quant g mn mx (rmatch r ci)"
| "rmatch (Group n r) ci =
     (\<lambda>st cs. set_group n (snd (snd st)) (rmatch r ci (fst st, st_rest st, []) cs))"
| "rmatch Bol ci = (\<lambda>st cs. if fst st = None then [(st, cs)] else [])"
| "rmatch Eol ci = (\<lambda>st cs. if st_rest st = [] then [(st, cs)] else [])"
| "rmatch WordB ci = (\<lambda>st cs.
     if prev_word (fst st) \<noteq> next_word (st_rest st) then [(st, cs)] else [])"

text \<open>
  The result of \<^verbatim>\<open>s.match(re)\<close> for a pattern without the \<^verbatim>\<open>g\<close> flag: the text
  before the match, the match (index 0 of the array), the text after it, and the
  captures. A group that took no part in the match is absent: \<^verbatim>\<open>undefined\<close>.
  The search tries the positions from left to right; \<open>pre\<close> holds the text before
  the position, last character first.
\<close>

record rmatchres =
  m_pre :: string
  m_all :: string
  m_post :: string
  m_caps :: caps

fun search_from :: "regex \<Rightarrow> bool \<Rightarrow> string \<Rightarrow> char option \<Rightarrow> string \<Rightarrow> rmatchres option" where
  "search_from r ci pre prev [] =
     (case rmatch r ci (prev, [], []) [] of
        [] \<Rightarrow> None
      | (st', cs) # _ \<Rightarrow>
          Some \<lparr>m_pre = rev pre, m_all = rev (snd (snd st')), m_post = st_rest st', m_caps = cs\<rparr>)"
| "search_from r ci pre prev (c # s) =
     (case rmatch r ci (prev, c # s, []) [] of
        [] \<Rightarrow> search_from r ci (c # pre) (Some c) s
      | (st', cs) # _ \<Rightarrow>
          Some \<lparr>m_pre = rev pre, m_all = rev (snd (snd st')), m_post = st_rest st', m_caps = cs\<rparr>)"

definition rexec :: "regex \<Rightarrow> bool \<Rightarrow> string \<Rightarrow> rmatchres option" where
  "rexec r ci s = search_from r ci [] None s"

definition rtest :: "regex \<Rightarrow> bool \<Rightarrow> string \<Rightarrow> bool" where
  "rtest r ci s = (rexec r ci s \<noteq> None)"

text \<open>
  \<open>grp m n\<close> is \<^verbatim>\<open>m[n]\<close>. Where the code uses \<^verbatim>\<open>m[n]\<close> as a string, the model binds
  it in the option monad: \<open>None\<close> stands for the run-time error of using \<^verbatim>\<open>undefined\<close>
  as a string, and it propagates to the caller like the exception would.
\<close>

definition grp :: "rmatchres \<Rightarrow> nat \<Rightarrow> string option" where
  "grp m n = map_of (m_caps m) n"

abbreviation Star :: "regex \<Rightarrow> regex" where "Star r \<equiv> Quant True 0 None r"
abbreviation Plus :: "regex \<Rightarrow> regex" where "Plus r \<equiv> Quant True 1 None r"
abbreviation Opt :: "regex \<Rightarrow> regex" where "Opt r \<equiv> Quant True 0 (Some 1) r"
abbreviation LazyStar :: "regex \<Rightarrow> regex" where "LazyStar r \<equiv> Quant False 0 None r"
abbreviation LazyPlus :: "regex \<Rightarrow> regex" where "LazyPlus r \<equiv> Quant False 1 None r"

fun seqs :: "regex list \<Rightarrow> regex" where
  "seqs [] = Lit []"
| "seqs [r] = r"
| "seqs (r # rs) = Seq r (seqs rs)"

fun alts :: "regex list \<Rightarrow> regex" where
  "alts [] = NSet [Wrd, NWrd]"
| "alts [r] = r"
| "alts (r # rs) = Alt r (alts rs)"

definition cdom :: "caps \<Rightarrow> nat set" where
  "cdom cs = fst ` set cs"

text \<open>The groups every match of a pattern defines.\<close>

primrec mand :: "regex \<Rightarrow> nat set" where
  "mand (Lit w) = {}"
| "mand Dot = {}"
| "mand (Set its) = {}"
| "mand (NSet its) = {}"
| "mand (Seq r1 r2) = mand r1 \<union> mand r2"
| "mand (Alt r1 r2) = mand r1 \<inter> mand r2"
| "mand (Quant g mn mx r) = (if 0 < mn \<and> mx \<noteq> Some 0 then mand r else {})"
| "mand (Group n r) = insert n (mand r)"
| "mand Bol = {}"
| "mand Eol = {}"
| "mand WordB = {}"

fun foldM :: "('s \<Rightarrow> 'a \<Rightarrow> 's option) \<Rightarrow> 's \<Rightarrow> 'a list \<Rightarrow> 's option" where
  "foldM f s [] = Some s"
| "foldM f s (x # xs) = (case f s x of None \<Rightarrow> None | Some s' \<Rightarrow> foldM f s' xs)"

section \<open>Error-name harvesting\<close>

text \<open>\<^verbatim>\<open>/raise\s+(\w+)/\<close> and \<^verbatim>\<open>/except\s+(\w+)/\<close> of \<^verbatim>\<open>parseErrorTypes\<close> (pythonParser.ts).\<close>

definition raiseRe :: regex where
  "raiseRe = seqs [Lit ''raise'', Plus (Set [Spc]), Group 1 (Plus (Set [Wrd]))]"

definition exceptRe :: regex where
  "exceptRe = seqs [Lit ''except'', Plus (Set [Spc]), Group 1 (Plus (Set [Wrd]))]"

text \<open>A line whose \<^verbatim>\<open>raise\<close> match names \<^verbatim>\<open>Exception\<close>.\<close>

definition raisesGeneric :: "string \<Rightarrow> bool" where
  "raisesGeneric line =
     (case rexec raiseRe False line of None \<Rightarrow> False | Some m \<Rightarrow> grp m 1 = Some ''Exception'')"

definition parseErrorTypes_line :: "string list \<Rightarrow> string \<Rightarrow> string list option" where
  "parseErrorTypes_line errors line = do {
     errors1 \<leftarrow> (case rexec raiseRe False line of
                   None \<Rightarrow> Some errors
                 | Some raiseMatch \<Rightarrow> do { e \<leftarrow> grp raiseMatch 1; Some (set_add errors e) });
     (case rexec exceptRe False line of
        None \<Rightarrow> Some errors1
      | Some exceptMatch \<Rightarrow> do {
          e \<leftarrow> grp exceptMatch 1;
          Some (if e \<noteq> ''Exception'' then set_add errors1 e else errors1) })
   }"

definition parseErrorTypes :: "string list \<Rightarrow> string list option" where
  "parseErrorTypes lines = foldM parseErrorTypes_line [] lines"

text \<open>
  \<^verbatim>\<open>/throw\s+new\s+(\w+)/\<close> and \<^verbatim>\<open>/catch\s*\(\s*(\w+)\s*(?::\s*(\w+))?\)/\<close> of
  \<^verbatim>\<open>parseJsErrors\<close> (jsParser.ts). \<^verbatim>\<open>c[2]\<close> is tested for truth before it is used.
\<close>

definition throwRe :: regex where
  "throwRe = seqs [Lit ''throw'', Plus (Set [Spc]), Lit ''new'', Plus (Set [Spc]),
                   Group 1 (Plus (Set [Wrd]))]"

definition jsCatchRe :: regex where
  "jsCatchRe = seqs [Lit ''catch'', Star (Set [Spc]), Lit ''('', Star (Set [Spc]),
                     Group 1 (Plus (Set [Wrd])), Star (Set [Spc]),
                     Opt (seqs [Lit '':'', Star (Set [Spc]), Group 2 (Plus (Set [Wrd]))]),
                     Lit '')'']"

definition truthy :: "string option \<Rightarrow> bool" where
  "truthy v = (case v of None \<Rightarrow> False | Some s \<Rightarrow> s \<noteq> [])"

definition parseJsErrors_line :: "string list \<Rightarrow> string \<Rightarrow> string list option" where
  "parseJsErrors_line errs l = do {
     errs1 \<leftarrow> (case rexec throwRe False l of
                 None \<Rightarrow> Some errs
               | Some t \<Rightarrow> do { e \<leftarrow> grp t 1; Some (set_add errs e) });
     (case rexec jsCatchRe False l of
        None \<Rightarrow> Some errs1
      | Some c \<Rightarrow> if truthy (grp c 2) then do { e \<leftarrow> grp c 2; Some (set_add errs1 e) }
                  else Some errs1)
   }"

definition parseJsErrors :: "string list \<Rightarrow> string list option" where
  "parseJsErrors lines = foldM parseJsErrors_line [] lines"

text \<open>
  \<^verbatim>\<open>/throw\s+new\s+(\w+)/\<close> and \<^verbatim>\<open>/catch\s*\(\s*(\w[\w\\|]*)\s/\<close> of
  \<^verbatim>\<open>parsePhpErrors\<close> (phpParser.ts).
\<close>

definition phpCatchRe :: regex where
  "phpCatchRe = seqs [Lit ''catch'', Star (Set [Spc]), Lit ''('', Star (Set [Spc]),
                      Group 1 (Seq (Set [Wrd]) (Star (Set [Wrd, Ch (CHR 0x5C), Ch CHR ''|'']))),
                      Set [Spc]]"

definition parsePhpErrors_line :: "string list \<Rightarrow> string \<Rightarrow> string list option" where
  "parsePhpErrors_line errs l = do {
     errs1 \<leftarrow> (case rexec throwRe False l of
                 None \<Rightarrow> Some errs
               | Some t \<Rightarrow> do { e \<leftarrow> grp t 1; Some (set_add errs e) });
     (case rexec phpCatchRe False l of
        None \<Rightarrow> Some errs1
      | Some c \<Rightarrow> do { e \<leftarrow> grp c 1; Some (set_add errs1 e) })
   }"

definition parsePhpErrors :: "string list \<Rightarrow> string list option" where
  "parsePhpErrors lines = foldM parsePhpErrors_line [] lines"

section \<open>Splitting on a pattern\<close>

text \<open>
  \<^verbatim>\<open>s.split(re)\<close> for a pattern without capture groups: the pieces between the
  successive non-empty matches, found from left to right. \<open>cur\<close> holds the piece
  collected since the last separator (last character first), \<open>prev\<close> the character
  before the position.
\<close>

function rsplit_from :: "regex \<Rightarrow> bool \<Rightarrow> string \<Rightarrow> char option \<Rightarrow> string \<Rightarrow> string list" where
  "rsplit_from r ci cur prev [] = [rev cur]"
| "rsplit_from r ci cur prev (c # s) =
     (case rmatch r ci (prev, c # s, []) [] of
        [] \<Rightarrow> rsplit_from r ci (c # cur) (Some c) s
      | (st', cs) # _ \<Rightarrow>
          if length (st_rest st') < length (c # s)
          then rev cur # rsplit_from r ci [] (fst st') (st_rest st')
          else if cur = [] then rsplit_from r ci [c] (Some c) s
          else rev cur # rsplit_from r ci [c] (Some c) s)"
  by pat_completeness auto
termination
  by (relation "measure (\<lambda>(r, ci, cur, prev, s). length s)") auto

declare rsplit_from.simps(2) [simp del]

definition rsplit :: "regex \<Rightarrow> bool \<Rightarrow> string \<Rightarrow> string list" where
  "rsplit r ci s =
     (if s = [] then (case rmatch r ci (None, [], []) [] of [] \<Rightarrow> [[]] | _ # _ \<Rightarrow> [])
      else rsplit_from r ci [] None s)"

text \<open>
  \<^verbatim>\<open>s.replace(re, repl)\<close> for a constant replacement text: without the \<^verbatim>\<open>g\<close> flag
  the first match is replaced, with it every match, found from left to right (after an
  empty match the search moves on by one character).
\<close>

definition rreplace :: "regex \<Rightarrow> bool \<Rightarrow> string \<Rightarrow> string \<Rightarrow> string" where
  "rreplace r ci repl s =
     (case rexec r ci s of None \<Rightarrow> s | Some m \<Rightarrow> m_pre m @ repl @ m_post m)"

function rreplace_from :: "regex \<Rightarrow> bool \<Rightarrow> string \<Rightarrow> char option \<Rightarrow> string \<Rightarrow> string" where
  "rreplace_from r ci repl prev [] =
     (case rmatch r ci (prev, [], []) [] of [] \<Rightarrow> [] | _ # _ \<Rightarrow> repl)"
| "rreplace_from r ci repl prev (c # s) =
     (case rmatch r ci (prev, c # s, []) [] of
        [] \<Rightarrow> c # rreplace_from r ci repl (Some c) s
      | (st', cs) # _ \<Rightarrow>
          if length (st_rest st') < length (c # s)
          then repl @ rreplace_from r ci repl (fst st') (st_rest st')
          else repl @ c # rreplace_from r ci repl (Some c) s)"
  by pat_completeness auto
termination
  by (relation "measure (\<lambda>(r, ci, repl, prev, s). length s)") auto

declare rreplace_from.simps(2) [simp del]

definition rreplace_all :: "regex \<Rightarrow> bool \<Rightarrow> string \<Rightarrow> string \<Rightarrow> string" where
  "rreplace_all r ci repl s = rreplace_from r ci repl None s"

text \<open>\<^verbatim>\<open>s.indexOf(c)\<close> for a character: \<open>None\<close> is \<^verbatim>\<open>-1\<close>.\<close>

fun indexOf :: "string \<Rightarrow> char \<Rightarrow> nat option" where
  "indexOf [] c = None"
| "indexOf (x # xs) c = (if x = c then Some 0 else map_option Suc (indexOf xs c))"

text \<open>\<^verbatim>\<open>xs[i]\<close>: \<^verbatim>\<open>undefined\<close> out of range.\<close>

definition nth_opt :: "'a list \<Rightarrow> nat \<Rightarrow> 'a option" where
  "nth_opt xs i = (if i < length xs then Some (xs ! i) else None)"

text \<open>\<^verbatim>\<open>x || d\<close> for an optional string: \<open>d\<close> when \<open>x\<close> is undefined or empty.\<close>

definition orElse :: "string option \<Rightarrow> string \<Rightarrow> string" where
  "orElse x d = (case x of None \<Rightarrow> d | Some s \<Rightarrow> if s = [] then d else s)"

definition LF :: char where "LF = CHR 0x0A"

text \<open>\<^verbatim>\<open>xs[0]\<close> of an array of strings: \<^verbatim>\<open>undefined\<close> when the array is empty.\<close>

definition first :: "'a list \<Rightarrow> 'a option" where
  "first xs = (case xs of [] \<Rightarrow> None | x # _ \<Rightarrow> Some x)"

text \<open>\<^verbatim>\<open>s.split(sep)[0]\<close> for a one-character separator: the text before the first one.\<close>

definition split0 :: "char \<Rightarrow> string \<Rightarrow> string" where
  "split0 sep s = takeWhile (\<lambda>c. c \<noteq> sep) s"

text \<open>\<^verbatim>\<open>s.replace(/c/g, d)\<close> for single characters \<open>c\<close> and \<open>d\<close>.\<close>

definition replaceChar :: "char \<Rightarrow> char \<Rightarrow> string \<Rightarrow> string" where
  "replaceChar c d s = map (\<lambda>x. if x = c then d else x) s"

definition dq :: char where "dq = CHR 0x22"
definition sq :: char where "sq = CHR 0x27"
definition bslash :: char where "bslash = CHR 0x5C"
definition btick :: char where "btick = CHR 0x60"

section \<open>Records of the structural summary\<close>

text \<open>The interfaces of types.ts; a field is prefixed where another record has its name.\<close>

record PortInfo =
  port_name :: string
  port_type :: string
  port_default :: "string option"

record MethodInfo =
  meth_name :: string
  meth_params :: "PortInfo list"
  meth_returnType :: string
  meth_decorators :: "string list"
  meth_lineNumber :: nat
  meth_isAsync :: bool
  meth_isPrivate :: bool
  meth_complexity :: nat

record ClassInfo =
  cls_name :: string
  cls_bases :: "string list"
  cls_methods :: "MethodInfo list"
  cls_attributes :: "PortInfo list"
  cls_decorators :: "string list"
  cls_lineNumber :: nat

record ImportInfo =
  imp_module :: string
  imp_names :: "string list"
  imp_isFrom :: bool
  imp_lineNumber :: nat

datatype HardcodedKind = KString | KNumber | KUrl | KIp | KPath | KCredential

record HardcodedValue =
  hv_value :: string
  hv_type :: HardcodedKind
  hv_lineNumber :: nat
  hv_context :: string

datatype UnusedKind = UImport | UMethod | UVariable

record UnusedItem =
  un_name :: string
  un_kind :: UnusedKind
  un_lineNumber :: nat

datatype DepStatus = Missing | Installed | Unknown

record DepIssue =
  dep_name :: string
  dep_status :: DepStatus
  dep_lineNumber :: nat
  dep_installCmd :: string

text \<open>
  A loop \<^verbatim>\<open>for (let i = 0; i < lines.length; i++)\<close> whose body only pushes onto its
  result: the body's pushes for each line, in order. \<open>i\<close> is the index of the line.
\<close>

fun forLines :: "(nat \<Rightarrow> string \<Rightarrow> 'b list option) \<Rightarrow> nat \<Rightarrow> string list \<Rightarrow> 'b list option" where
  "forLines f i [] = Some []"
| "forLines f i (l # ls) = do { xs \<leftarrow> f i l; ys \<leftarrow> forLines f (Suc i) ls; Some (xs @ ys) }"

text \<open>
  A loop over the lines that may stop early: the body either breaks or pushes (possibly
  nothing) and goes on. \<open>foldLines\<close> is the same loop for a body that reads what it has
  collected so far.
\<close>

datatype 'b step = Break | Push "'b list"

fun loopLines :: "(nat \<Rightarrow> string \<Rightarrow> 'b step option) \<Rightarrow> nat \<Rightarrow> string list \<Rightarrow> 'b list option" where
  "loopLines f i [] = Some []"
| "loopLines f i (l # ls) =
     (case f i l of
        None \<Rightarrow> None
      | Some Break \<Rightarrow> Some []
      | Some (Push xs) \<Rightarrow>
          (case loopLines f (Suc i) ls of None \<Rightarrow> None | Some ys \<Rightarrow> Some (xs @ ys)))"

datatype 's ctl = Stop | Go 's

fun foldLines :: "('s \<Rightarrow> nat \<Rightarrow> string \<Rightarrow> 's ctl option) \<Rightarrow> 's \<Rightarrow> nat \<Rightarrow> string list \<Rightarrow> 's option" where
  "foldLines f s i [] = Some s"
| "foldLines f s i (l # ls) =
     (case f s i l of
        None \<Rightarrow> None
      | Some Stop \<Rightarrow> Some s
      | Some (Go s') \<Rightarrow> foldLines f s' (Suc i) ls)"

text \<open>\<^verbatim>\<open>xs.map(f)\<close> for a body that may fail.\<close>

fun mapM :: "('a \<Rightarrow> 'b option) \<Rightarrow> 'a list \<Rightarrow> 'b list option" where
  "mapM f [] = Some []"
| "mapM f (x # xs) = do { y \<leftarrow> f x; ys \<leftarrow> mapM f xs; Some (y # ys) }"

section \<open>Dependency resolver\<close>

text \<open>\<^verbatim>\<open>PY_STDLIB\<close> and \<^verbatim>\<open>NODE_BUILTINS\<close> of analyzers.ts.\<close>

definition PY_STDLIB :: "string list" where
  "PY_STDLIB = [
  ''os'',''sys'',''re'',''json'',''math'',''datetime'',''typing'',''pathlib'',''collections'',
  ''abc'',''functools'',''itertools'',''hashlib'',''logging'',''unittest'',''io'',''time'',
  ''random'',''string'',''copy'',''enum'',''dataclasses'',''contextlib'',''asyncio'',
  ''subprocess'',''shutil'',''glob'',''tempfile'',''threading'',''multiprocessing'',
  ''socket'',''http'',''urllib'',''base64'',''csv'',''xml'',''html'',''sqlite3'',''struct'',
  ''argparse'',''textwrap'',''uuid'',''decimal'',''fractions'',''statistics'',''operator'',
  ''pprint'',''warnings'',''traceback'',''inspect'',''dis'',''gc'',''weakref'',''array'',
  ''queue'',''heapq'',''bisect'',''configparser'',''secrets'',''hmac'',''pickle'',
  ''shelve'',''dbm'',''gzip'',''zipfile'',''tarfile'',''lzma'',''bz2'',''zlib'',''signal'',
  ''mmap'',''ctypes'',''platform'',''sysconfig'',''site'',''venv'',''compileall'',
  ''py_compile'',''profile'',''cProfile'',''timeit'',''trace'',''pdb'',''faulthandler'',
  ''atexit'',''builtins'',''importlib'',''pkgutil'',''modulefinder'',''runpy'',
  ''_thread'',''concurrent'',''types'',''codecs'',''unicodedata'',''stringprep'',
  ''readline'',''rlcompleter'',''struct'',''codecs'',
  ''tkinter'',''turtle'',''idlelib'',''turtledemo'',''test'',''distutils'',''ensurepip'',
  ''lib2to3'',''xmlrpc'',''email'',''mailbox'',''mimetypes'',''webbrowser'',
  ''cgi'',''cgitb'',''wsgiref'',''ftplib'',''poplib'',''imaplib'',''smtplib'',
  ''telnetlib'',''socketserver'',''select'',''selectors'',''ssl'']"

definition NODE_BUILTINS :: "string list" where
  "NODE_BUILTINS = [
  ''fs'',''path'',''os'',''http'',''https'',''url'',''querystring'',''stream'',''buffer'',
  ''events'',''util'',''crypto'',''zlib'',''net'',''dns'',''tls'',''child_process'',
  ''cluster'',''readline'',''repl'',''vm'',''assert'',''console'',''process'',
  ''timers'',''worker_threads'',''perf_hooks'',''async_hooks'',''inspector'',
  ''v8'',''string_decoder'',''punycode'',''module'',
  ''node:fs'',''node:path'',''node:os'',''node:http'',''node:https'',''node:url'',
  ''node:crypto'',''node:stream'',''node:events'',''node:util'',''node:child_process'',
  ''node:worker_threads'',''node:net'',''node:dns'',''node:tls'',''node:zlib'',
  ''node:assert'',''node:buffer'',''node:readline'',''node:cluster'']"

text \<open>The set \<^verbatim>\<open>stdlib\<close> local to \<^verbatim>\<open>normalizeDep\<close>.\<close>

definition normalizeDep_stdlib :: "string list" where
  "normalizeDep_stdlib = [
  ''os'',''sys'',''re'',''json'',''math'',''datetime'',''typing'',''pathlib'',''collections'',
  ''abc'',''functools'',''itertools'',''hashlib'',''logging'',''unittest'',''io'',''time'',
  ''random'',''string'',''copy'',''enum'',''dataclasses'',''contextlib'',''asyncio'',
  ''subprocess'',''shutil'',''glob'',''tempfile'',''threading'',''multiprocessing'',
  ''socket'',''http'',''urllib'',''base64'',''csv'',''xml'',''html'',''sqlite3'',''struct'',
  ''argparse'',''textwrap'',''uuid'',''decimal'',''fractions'',''statistics'',''operator'',
  ''pprint'',''warnings'',''traceback'',''inspect'',''dis'',''gc'',''weakref'',''array'',
  ''queue'',''heapq'',''bisect'',''configparser'',''secrets'',''hmac'',''pickle'',
  ''shelve'',''dbm'',''gzip'',''zipfile'',''tarfile'',''lzma'',''bz2'',''zlib'',''signal'',
  ''mmap'',''ctypes'',''platform'',''sysconfig'',''site'',''venv'',''compileall'',
  ''py_compile'',''profile'',''cProfile'',''timeit'',''trace'',''pdb'',''faulthandler'',
  ''atexit'',''builtins'',''importlib'',''pkgutil'',''modulefinder'',''runpy'',
  ''_thread'',''concurrent'',''types'',''codecs'',''unicodedata'',''stringprep'',
  ''readline'',''rlcompleter'',''struct'',''codecs'']"

definition isJsLike :: "string \<Rightarrow> bool" where
  "isJsLike lang = (startsWith lang ''javascript'' \<or> startsWith lang ''typescript'')"

definition isExternalImport :: "ImportInfo \<Rightarrow> string \<Rightarrow> bool" where
  "isExternalImport imp lang =
     (if lang = ''python'' then \<not> startsWith (imp_module imp) ''.''
      else if isJsLike lang then \<not> startsWith (imp_module imp) ''.'' \<and> \<not> startsWith (imp_module imp) ''/''
      else if lang = ''php'' then \<not> startsWith (imp_module imp) ''.'' \<and> \<not> startsWith (imp_module imp) ''/''
      else True)"

text \<open>
  \<^verbatim>\<open>normalizeDep\<close>: \<open>None\<close> is \<^verbatim>\<open>null\<close>. \<^verbatim>\<open>parts.slice(0, 2)\<close> is \<open>take 2\<close>.
\<close>

definition normalizeDep :: "string \<Rightarrow> string \<Rightarrow> string option" where
  "normalizeDep module lang =
     (if lang = ''python'' then
        (let base = split0 CHR ''.'' module
         in if base \<in> set normalizeDep_stdlib then None else Some base)
      else if isJsLike lang then
        (if startsWith module ''@'' then Some (join ''/'' (take 2 (splitOn CHR ''/'' module)))
         else Some (split0 CHR ''/'' module))
      else if lang = ''php'' then
        (let parts = splitOn bslash module
         in if first parts = Some ''App'' \<or> first parts = Some ''Database'' \<or> first parts = Some ''Tests''
            then None
            else Some (toLowerCase (join ''/'' (take 2 parts))))
      else Some module)"

text \<open>\<^verbatim>\<open>/[./\\]/\<close>, the separator of \<^verbatim>\<open>imp.module.split(/[./\\]/)[0]\<close>.\<close>

definition moduleSepRe :: regex where
  "moduleSepRe = Set [Ch CHR ''.'', Ch CHR ''/'', Ch bslash]"

definition keepImport :: "string \<Rightarrow> ImportInfo \<Rightarrow> bool" where
  "keepImport language imp =
     (if \<not> isExternalImport imp language then False
      else let base = first (rsplit moduleSepRe False (imp_module imp)) in
        if language = ''python'' \<and> base \<in> Some ` set PY_STDLIB then False
        else if isJsLike language \<and> imp_module imp \<in> set NODE_BUILTINS then False
        else if language = ''php'' \<and>
                (let ns = split0 bslash (imp_module imp)
                 in ns = ''App'' \<or> ns = ''Database'' \<or> ns = ''Tests'') then False
        else True)"

definition installCmdFor :: "string \<Rightarrow> DepStatus \<Rightarrow> string \<Rightarrow> string" where
  "installCmdFor language status depName =
     (if status \<noteq> Installed then
        (if language = ''python'' then ''pip install '' @ depName
         else if isJsLike language then ''npm install '' @ depName
         else if language = ''php'' then ''composer require '' @ depName
         else [])
      else [])"

text \<open>
  The body of the loop over the external imports. \<open>installed\<close> is what
  \<^verbatim>\<open>getInstalledPackages(filePath, language)\<close> returned: a function of the file system
  and of the \<^verbatim>\<open>pip\<close> process, \<open>None\<close> for \<^verbatim>\<open>null\<close>, otherwise the names it collected.
\<close>

definition depIssueOf :: "string list option \<Rightarrow> string \<Rightarrow> ImportInfo \<Rightarrow> DepIssue list" where
  "depIssueOf installed language imp =
     (case normalizeDep (imp_module imp) language of
        None \<Rightarrow> []
      | Some depName \<Rightarrow>
          if depName = [] then []
          else
            let status =
              (case installed of
                 None \<Rightarrow> Unknown
               | Some pkgs \<Rightarrow>
                   if 0 < length (remdups pkgs) then
                     (let found = toLowerCase depName \<in> set pkgs
                          \<or> replaceChar CHR ''-'' CHR ''_'' (toLowerCase depName) \<in> set pkgs
                          \<or> replaceChar CHR ''_'' CHR ''-'' (toLowerCase depName) \<in> set pkgs
                      in if found then Installed else Missing)
                   else Unknown)
            in [\<lparr>dep_name = depName, dep_status = status, dep_lineNumber = imp_lineNumber imp,
                 dep_installCmd = installCmdFor language status depName\<rparr>])"

definition checkDependencies :: "ImportInfo list \<Rightarrow> string list option \<Rightarrow> string \<Rightarrow> DepIssue list" where
  "checkDependencies imports installed language =
     (let externalImports = filter (keepImport language) imports
      in if externalImports = [] then []
         else concat (map (depIssueOf installed language) externalImports))"

section \<open>Hardcoded-value detection\<close>

subsection \<open>The scanner of the indentation-based extractor\<close>

text \<open>
  The patterns of \<^verbatim>\<open>detectHardcodedValues\<close> (pythonParser.ts):
  \<^verbatim>\<open>urlRe = /https?:\/\/[^\s"']+/\<close>,
  \<^verbatim>\<open>ipRe = /\b\d{1,3}\.\d{1,3}\.\d{1,3}\.\d{1,3}\b/\<close>,
  \<^verbatim>\<open>pathRe = /["']\/[\w\-\/\.]+["']/\<close>,
  \<^verbatim>\<open>credRe = /(?:password|secret|key|token|api_key|apikey|passwd|credential)\s*=\s*["'][^"']+["']/i\<close>,
  \<^verbatim>\<open>portRe = /(?:port)\s*=\s*\d+/i\<close>, then \<^verbatim>\<open>/=\s*(\d+)/\<close>,
  \<^verbatim>\<open>/^(\w+)\s*=\s*["']([^"']{8,})["']\s*$/\<close> and \<^verbatim>\<open>/^[A-Z_]+$/\<close>.
\<close>

definition py_urlRe :: regex where
  "py_urlRe = seqs [Lit ''http'', Opt (Lit ''s''), Lit ''://'', Plus (NSet [Spc, Ch dq, Ch sq])]"

definition ipRe :: regex where
  "ipRe = seqs [WordB, Quant True 1 (Some 3) (Set [Dig]), Lit ''.'',
                Quant True 1 (Some 3) (Set [Dig]), Lit ''.'',
                Quant True 1 (Some 3) (Set [Dig]), Lit ''.'',
                Quant True 1 (Some 3) (Set [Dig]), WordB]"

definition py_pathRe :: regex where
  "py_pathRe = seqs [Set [Ch dq, Ch sq], Lit ''/'',
                     Plus (Set [Wrd, Ch CHR ''-'', Ch CHR ''/'', Ch CHR ''.'']),
                     Set [Ch dq, Ch sq]]"

definition py_credRe :: regex where
  "py_credRe = seqs [alts [Lit ''password'', Lit ''secret'', Lit ''key'', Lit ''token'',
                           Lit ''api_key'', Lit ''apikey'', Lit ''passwd'', Lit ''credential''],
                     Star (Set [Spc]), Lit ''='', Star (Set [Spc]),
                     Set [Ch dq, Ch sq], Plus (NSet [Ch dq, Ch sq]), Set [Ch dq, Ch sq]]"

definition py_portRe :: regex where
  "py_portRe = seqs [Lit ''port'', Star (Set [Spc]), Lit ''='', Star (Set [Spc]), Plus (Set [Dig])]"

definition py_portValRe :: regex where
  "py_portValRe = seqs [Lit ''='', Star (Set [Spc]), Group 1 (Plus (Set [Dig]))]"

definition py_assignStrRe :: regex where
  "py_assignStrRe = seqs [Bol, Group 1 (Plus (Set [Wrd])), Star (Set [Spc]), Lit ''='',
                          Star (Set [Spc]), Set [Ch dq, Ch sq],
                          Group 2 (Quant True 8 None (NSet [Ch dq, Ch sq])),
                          Set [Ch dq, Ch sq], Star (Set [Spc]), Eol]"

definition upperNameRe :: regex where
  "upperNameRe = seqs [Bol, Plus (Set [Rng CHR ''A'' CHR ''Z'', Ch CHR ''_'']), Eol]"

text \<open>
  The lines the loop passes over: comments, blank lines, the annotation block and imports.
\<close>

definition py_hardcodedSkips :: "string \<Rightarrow> bool" where
  "py_hardcodedSkips trimmed =
     ((startsWith trimmed ''#'' \<or> trimmed = []) \<or>
      (startsWith trimmed ''# ---meta'' \<or> startsWith trimmed ''# ---'') \<or>
      (startsWith trimmed ''import '' \<or> startsWith trimmed ''from ''))"

text \<open>
  The body of the loop for the line of index \<open>i\<close>, rule by rule. A finding's context
  is \<^verbatim>\<open>trimmed.split('=')[0].trim()\<close>. The URL rule's second test repeats the
  loop's first.
\<close>

definition py_urlRule :: "nat \<Rightarrow> string \<Rightarrow> string \<Rightarrow> HardcodedValue list" where
  "py_urlRule i line trimmed =
     (case rexec py_urlRe False line of
        Some urlMatch \<Rightarrow>
          if \<not> startsWith trimmed ''#''
          then [\<lparr>hv_value = m_all urlMatch, hv_type = KUrl, hv_lineNumber = i + 1,
                 hv_context = trim (split0 CHR ''='' trimmed)\<rparr>]
          else []
      | None \<Rightarrow> [])"

definition py_ipRule :: "nat \<Rightarrow> string \<Rightarrow> string \<Rightarrow> HardcodedValue list" where
  "py_ipRule i line trimmed =
     (case rexec ipRe False line of
        Some ipMatch \<Rightarrow>
          if rexec py_urlRe False line = None
          then [\<lparr>hv_value = m_all ipMatch, hv_type = KIp, hv_lineNumber = i + 1,
                 hv_context = trim (split0 CHR ''='' trimmed)\<rparr>]
          else []
      | None \<Rightarrow> [])"

definition py_pathRule :: "nat \<Rightarrow> string \<Rightarrow> string \<Rightarrow> HardcodedValue list" where
  "py_pathRule i line trimmed =
     (case rexec py_pathRe False line of
        Some pathMatch \<Rightarrow>
          if rexec py_urlRe False line = None
          then [\<lparr>hv_value = m_all pathMatch, hv_type = KPath, hv_lineNumber = i + 1,
                 hv_context = trim (split0 CHR ''='' trimmed)\<rparr>]
          else []
      | None \<Rightarrow> [])"

definition py_portRule :: "nat \<Rightarrow> string \<Rightarrow> HardcodedValue list option" where
  "py_portRule i line =
     (if rtest py_portRe True line then
        (case rexec py_portValRe False line of
           None \<Rightarrow> Some []
         | Some val \<Rightarrow> do {
             v \<leftarrow> grp val 1;
             Some [\<lparr>hv_value = v, hv_type = KNumber, hv_lineNumber = i + 1,
                    hv_context = ''port''\<rparr>] })
      else Some [])"

text \<open>
  The last rule is written as in the source: its outer test
  \<^verbatim>\<open>!/^[A-Z_]+$/.test(assignStr[1]) === false\<close> holds when the name is upper-case, its
  inner test \<^verbatim>\<open>!/^[A-Z_]+$/.test(varName)\<close> when it is not.
\<close>

definition py_stringRule :: "nat \<Rightarrow> string \<Rightarrow> HardcodedValue list option" where
  "py_stringRule i trimmed =
     (case rexec py_assignStrRe False trimmed of
        None \<Rightarrow> Some []
      | Some assignStr \<Rightarrow> do {
          varName \<leftarrow> grp assignStr 1;
          if (\<not> rtest upperNameRe False varName) = False then
            (if \<not> rtest upperNameRe False varName then do {
               v \<leftarrow> grp assignStr 2;
               Some [\<lparr>hv_value = v, hv_type = KString, hv_lineNumber = i + 1,
                      hv_context = varName\<rparr>] }
             else Some [])
          else Some [] })"

definition detectHardcodedValues_line :: "nat \<Rightarrow> string \<Rightarrow> HardcodedValue list option" where
  "detectHardcodedValues_line i line =
     (let trimmed = trim line in
      if py_hardcodedSkips trimmed then Some []
      else
        (case rexec py_credRe True line of
           Some credMatch \<Rightarrow>
             Some [\<lparr>hv_value = m_all credMatch, hv_type = KCredential, hv_lineNumber = i + 1,
                    hv_context = trim (split0 CHR ''='' trimmed)\<rparr>]
         | None \<Rightarrow> do {
             ports \<leftarrow> py_portRule i line;
             strs \<leftarrow> py_stringRule i trimmed;
             Some (py_urlRule i line trimmed @ py_ipRule i line trimmed @
                   py_pathRule i line trimmed @ ports @ strs) }))"

definition detectHardcodedValues :: "string list \<Rightarrow> HardcodedValue list option" where
  "detectHardcodedValues lines = forLines detectHardcodedValues_line 0 lines"

subsection \<open>The shared scanner\<close>

text \<open>
  The patterns of \<^verbatim>\<open>detectHardcoded\<close> (parserUtils.ts):
  \<^verbatim>\<open>urlRe = /https?:\/\/[^\s"'`]+/\<close>, the same \<^verbatim>\<open>ipRe\<close>,
  \<^verbatim>\<open>credRe = /(?:password|secret|key|token|api_key|apikey|passwd|credential|auth)\s*[:=]\s*["'`][^"'`]+["'`]/i\<close>,
  \<^verbatim>\<open>portRe = /(?:port)\s*[:=]\s*\d+/i\<close>, then \<^verbatim>\<open>/[:=]\s*(\d+)/\<close>,
  \<^verbatim>\<open>/^(?:import |from |use |require|include)/\<close> and the separator \<^verbatim>\<open>/[:=]/\<close>.
\<close>

definition sh_urlRe :: regex where
  "sh_urlRe = seqs [Lit ''http'', Opt (Lit ''s''), Lit ''://'',
                    Plus (NSet [Spc, Ch dq, Ch sq, Ch btick])]"

definition sh_credRe :: regex where
  "sh_credRe = seqs [alts [Lit ''password'', Lit ''secret'', Lit ''key'', Lit ''token'',
                           Lit ''api_key'', Lit ''apikey'', Lit ''passwd'', Lit ''credential'',
                           Lit ''auth''],
                     Star (Set [Spc]), Set [Ch CHR '':'', Ch CHR ''=''], Star (Set [Spc]),
                     Set [Ch dq, Ch sq, Ch btick], Plus (NSet [Ch dq, Ch sq, Ch btick]),
                     Set [Ch dq, Ch sq, Ch btick]]"

definition sh_portRe :: regex where
  "sh_portRe = seqs [Lit ''port'', Star (Set [Spc]), Set [Ch CHR '':'', Ch CHR ''=''],
                     Star (Set [Spc]), Plus (Set [Dig])]"

definition sh_portValRe :: regex where
  "sh_portValRe = seqs [Set [Ch CHR '':'', Ch CHR ''=''], Star (Set [Spc]), Group 1 (Plus (Set [Dig]))]"

definition sh_importRe :: regex where
  "sh_importRe = seqs [Bol, alts [Lit ''import '', Lit ''from '', Lit ''use '', Lit ''require'',
                                   Lit ''include'']]"

definition colonEqRe :: regex where
  "colonEqRe = Set [Ch CHR '':'', Ch CHR ''='']"

definition sh_hardcodedSkips :: "string \<Rightarrow> string \<Rightarrow> bool" where
  "sh_hardcodedSkips commentPrefix trimmed =
     ((trimmed = [] \<or> startsWith trimmed commentPrefix \<or> startsWith trimmed ''#'') \<or>
      (str_includes trimmed ''---meta'' \<or> str_includes trimmed ''---'') \<or>
      rtest sh_importRe False trimmed)"

definition sh_urlRule :: "nat \<Rightarrow> string \<Rightarrow> string \<Rightarrow> HardcodedValue list" where
  "sh_urlRule i line ctx =
     (case rexec sh_urlRe False line of
        Some urlMatch \<Rightarrow> [\<lparr>hv_value = m_all urlMatch, hv_type = KUrl, hv_lineNumber = i + 1,
                            hv_context = ctx\<rparr>]
      | None \<Rightarrow> [])"

definition sh_ipRule :: "nat \<Rightarrow> string \<Rightarrow> string \<Rightarrow> HardcodedValue list" where
  "sh_ipRule i line ctx =
     (case rexec ipRe False line of
        Some ipMatch \<Rightarrow>
          if rexec sh_urlRe False line = None
          then [\<lparr>hv_value = m_all ipMatch, hv_type = KIp, hv_lineNumber = i + 1,
                 hv_context = ctx\<rparr>]
          else []
      | None \<Rightarrow> [])"

definition sh_portRule :: "nat \<Rightarrow> string \<Rightarrow> HardcodedValue list option" where
  "sh_portRule i line =
     (if rtest sh_portRe True line then
        (case rexec sh_portValRe False line of
           None \<Rightarrow> Some []
         | Some val \<Rightarrow> do {
             v \<leftarrow> grp val 1;
             Some [\<lparr>hv_value = v, hv_type = KNumber, hv_lineNumber = i + 1,
                    hv_context = ''port''\<rparr>] })
      else Some [])"

text \<open>The context is \<^verbatim>\<open>trimmed.split(/[:=]/)[0].trim().slice(0, 30)\<close>.\<close>

definition detectHardcoded_line :: "string \<Rightarrow> nat \<Rightarrow> string \<Rightarrow> HardcodedValue list option" where
  "detectHardcoded_line commentPrefix i line =
     (let trimmed = trim line in
      if sh_hardcodedSkips commentPrefix trimmed then Some []
      else do {
        piece \<leftarrow> first (rsplit colonEqRe False trimmed);
        let ctx = take 30 (trim piece);
        (case rexec sh_credRe True line of
           Some credMatch \<Rightarrow>
             Some [\<lparr>hv_value = m_all credMatch, hv_type = KCredential, hv_lineNumber = i + 1,
                    hv_context = ctx\<rparr>]
         | None \<Rightarrow> do {
             ports \<leftarrow> sh_portRule i line;
             Some (sh_urlRule i line ctx @ sh_ipRule i line ctx @ ports) }) })"

definition detectHardcoded :: "string list \<Rightarrow> string \<Rightarrow> HardcodedValue list option" where
  "detectHardcoded lines commentPrefix = forLines (detectHardcoded_line commentPrefix) 0 lines"

section \<open>Brace-depth body spans\<close>

text \<open>
  The character scan the brace-based extractors repeat on every line
  (\<^verbatim>\<open>countJsBranches\<close>, \<^verbatim>\<open>parseJsClassMethods\<close>, \<^verbatim>\<open>parseJsClassAttrs\<close> and their
  namespace-import counterparts):
  \<^verbatim>\<open>for (const ch of l) { if (ch === '{') { d++; started = true; } if (ch === '}') d--; }\<close>.
  The state is the depth and the flag \<^verbatim>\<open>started\<close>.
\<close>

fun braceStep :: "int \<times> bool \<Rightarrow> char \<Rightarrow> int \<times> bool" where
  "braceStep (d, started) ch =
     (if ch = CHR ''{'' then (d + 1, True)
      else if ch = CHR ''}'' then (d - 1, started)
      else (d, started))"

definition braceScan :: "int \<times> bool \<Rightarrow> string \<Rightarrow> int \<times> bool" where
  "braceScan st l = foldl braceStep st l"

text \<open>
  \<^verbatim>\<open>/^(if|else if|else|for|while|switch|case)\b/\<close> and \<^verbatim>\<open>/\?\s*/\<close> of
  \<^verbatim>\<open>countJsBranches\<close> (jsParser.ts), and what one line adds to the count.
\<close>

definition jsBranchRe :: regex where
  "jsBranchRe = seqs [Bol, Group 1 (alts [Lit ''if'', Lit ''else if'', Lit ''else'', Lit ''for'',
                                           Lit ''while'', Lit ''switch'', Lit ''case'']), WordB]"

definition jsTernaryRe :: regex where
  "jsTernaryRe = seqs [Lit ''?'', Star (Set [Spc])]"

definition jsBranchInc :: "string \<Rightarrow> nat" where
  "jsBranchInc l =
     (let t = trim l in
      (if rtest jsBranchRe False t then 1 else 0) +
      (if rtest jsTernaryRe False t \<and> str_includes t '':'' then 1 else 0))"

text \<open>
  The loop of \<^verbatim>\<open>countJsBranches(lines, start)\<close> from the line of index \<open>i\<close> on: it
  returns the count \<open>b\<close> and the index at which it stopped, the line of the
  \<^verbatim>\<open>break\<close> (where the depth is back at zero or below after a brace was seen) or the
  number of lines when no line breaks.
\<close>

fun countJsBranches_loop :: "nat \<Rightarrow> nat \<Rightarrow> int \<times> bool \<Rightarrow> string list \<Rightarrow> nat \<times> nat" where
  "countJsBranches_loop i b st [] = (b, i)"
| "countJsBranches_loop i b st (l # ls) =
     (if snd (braceScan st l) \<and> fst (braceScan st l) \<le> 0 then (b, i)
      else countJsBranches_loop (Suc i) (b + jsBranchInc l) (braceScan st l) ls)"

definition countJsBranches :: "string list \<Rightarrow> nat \<Rightarrow> nat" where
  "countJsBranches lines start = fst (countJsBranches_loop start 0 (0, False) (drop start lines))"

definition jsBodyEnd :: "string list \<Rightarrow> nat \<Rightarrow> nat" where
  "jsBodyEnd lines start = snd (countJsBranches_loop start 0 (0, False) (drop start lines))"

text \<open>The literal of the scenario, with its quotes.\<close>

definition braceLiteral :: string where
  "braceLiteral = [dq] @ ''{ not a real brace }'' @ [dq]"

text \<open>A line with the literal put in after its first \<open>p\<close> characters.\<close>

definition withLiteral :: "nat \<Rightarrow> string \<Rightarrow> string" where
  "withLiteral p l = take p l @ braceLiteral @ drop p l"

section \<open>The indentation-based extractor\<close>

subsection \<open>Indentation, decorators, branch counting\<close>

text \<open>\<^verbatim>\<open>getIndent\<close>: the length of group 1 of \<^verbatim>\<open>/^(\s*)/\<close>.\<close>

definition indentRe :: regex where
  "indentRe = seqs [Bol, Group 1 (Star (Set [Spc]))]"

definition getIndent :: "string \<Rightarrow> nat option" where
  "getIndent line =
     (case rexec indentRe False line of
        None \<Rightarrow> Some 0
      | Some m \<Rightarrow> do { g \<leftarrow> grp m 1; Some (length g) })"

text \<open>
  \<^verbatim>\<open>collectDecorators(lines, defLineIdx)\<close> walks up from the line before the
  declaration; \<open>prior\<close> holds those lines, nearest first.
\<close>

fun collectDecorators_loop :: "string list \<Rightarrow> string list \<Rightarrow> string list" where
  "collectDecorators_loop [] decorators = decorators"
| "collectDecorators_loop (l # prior) decorators =
     (if startsWith (trim l) ''@'' then collectDecorators_loop prior (trim l # decorators)
      else if trim l = [] then collectDecorators_loop prior decorators
      else decorators)"

definition collectDecorators :: "string list \<Rightarrow> nat \<Rightarrow> string list" where
  "collectDecorators lines defLineIdx = collectDecorators_loop (rev (take defLineIdx lines)) []"

text \<open>
  \<^verbatim>\<open>countBranches\<close>: \<^verbatim>\<open>/^(if|elif|else|for|while|except|case)\b/\<close> and \<^verbatim>\<open>/\bif\b/\<close>.
\<close>

definition pyBranchRe :: regex where
  "pyBranchRe = seqs [Bol, Group 1 (alts [Lit ''if'', Lit ''elif'', Lit ''else'', Lit ''for'',
                                           Lit ''while'', Lit ''except'', Lit ''case'']), WordB]"

definition inlineIfRe :: regex where
  "inlineIfRe = seqs [WordB, Lit ''if'', WordB]"

definition pyBranchInc :: "string \<Rightarrow> nat" where
  "pyBranchInc trimmed =
     (if rtest pyBranchRe False trimmed then 1 else 0) +
     (if rtest inlineIfRe False trimmed \<and> \<not> startsWith trimmed ''if''
         \<and> \<not> startsWith trimmed ''elif'' then 1 else 0)"

fun countBranches_loop :: "nat \<Rightarrow> nat \<Rightarrow> string list \<Rightarrow> nat option" where
  "countBranches_loop baseIndent branches [] = Some branches"
| "countBranches_loop baseIndent branches (line # ls) =
     (if trim line = [] then countBranches_loop baseIndent branches ls
      else do {
        indent \<leftarrow> getIndent line;
        if indent \<le> baseIndent \<and> trim line \<noteq> [] then Some branches
        else countBranches_loop baseIndent (branches + pyBranchInc (trim line)) ls })"

definition countBranches :: "string list \<Rightarrow> nat \<Rightarrow> nat option" where
  "countBranches lines startIdx = do {
     header \<leftarrow> nth_opt lines startIdx;
     baseIndent \<leftarrow> getIndent header;
     countBranches_loop baseIndent 0 (drop (Suc startIdx) lines) }"

subsection \<open>Parameters\<close>

text \<open>
  \<^verbatim>\<open>splitParams\<close>: the state is the pieces pushed so far, the current piece and the
  depth; a final piece is pushed when it is not blank.
\<close>

fun splitParams_loop :: "string list \<Rightarrow> string \<Rightarrow> int \<Rightarrow> string \<Rightarrow> string list" where
  "splitParams_loop result current depth [] =
     (if trim current \<noteq> [] then result @ [current] else result)"
| "splitParams_loop result current depth (ch # s) =
     (let depth1 = (if ch = CHR ''('' \<or> ch = CHR ''['' then depth + 1 else depth);
          depth2 = (if ch = CHR '')'' \<or> ch = CHR '']'' then depth1 - 1 else depth1)
      in if ch = CHR '','' \<and> depth2 = 0 then splitParams_loop (result @ [current]) [] depth2 s
         else splitParams_loop result (current @ [ch]) depth2 s)"

definition splitParams :: "string \<Rightarrow> string list" where
  "splitParams paramStr = splitParams_loop [] [] 0 paramStr"

definition splitNameType :: "string \<Rightarrow> string \<times> string" where
  "splitNameType s =
     (case indexOf s CHR '':'' of
        None \<Rightarrow> (trim s, ''Any'')
      | Some colonIdx \<Rightarrow> (trim (take colonIdx s), trim (drop (colonIdx + 1) s)))"

text \<open>\<^verbatim>\<open>/^\*{1,2}/\<close>, the marker of a rest parameter.\<close>

definition starPrefixRe :: regex where
  "starPrefixRe = seqs [Bol, Quant True 1 (Some 2) (Set [Ch CHR ''*''])]"

definition parseParam :: "string \<Rightarrow> PortInfo list" where
  "parseParam part =
     (let trimmed = trim part in
      if trimmed = [] \<or> trimmed = ''*'' \<or> trimmed = ''/'' then []
      else if startsWith trimmed ''**'' \<or> startsWith trimmed ''*'' then
        (let clean = rreplace starPrefixRe False [] trimmed;
             nt = splitNameType clean
         in [\<lparr>port_name = (if startsWith trimmed ''**'' then ''**'' else ''*'') @ fst nt,
               port_type = orElse (Some (snd nt)) ''Any'', port_default = None\<rparr>])
      else
        (let eqIdx = indexOf trimmed CHR ''='';
             defaultVal = (case eqIdx of None \<Rightarrow> None | Some k \<Rightarrow> Some (trim (drop (k + 1) trimmed)));
             mainPart = (case eqIdx of None \<Rightarrow> trimmed | Some k \<Rightarrow> trim (take k trimmed));
             nt = splitNameType mainPart
         in [\<lparr>port_name = fst nt, port_type = orElse (Some (snd nt)) ''Any'',
               port_default = defaultVal\<rparr>]))"

definition parseParams :: "string \<Rightarrow> PortInfo list" where
  "parseParams paramStr =
     (if trim paramStr = [] then [] else concat (map parseParam (splitParams paramStr)))"

subsection \<open>Imports\<close>

text \<open>
  \<^verbatim>\<open>/^from\s+([\w.]+)\s+import\s+(.+)$/\<close>, \<^verbatim>\<open>/^import\s+(.+)$/\<close> and the separator
  \<^verbatim>\<open>/\s+as\s+/\<close> of \<^verbatim>\<open>parseImports\<close>.
\<close>

definition fromImportRe :: regex where
  "fromImportRe = seqs [Bol, Lit ''from'', Plus (Set [Spc]),
                        Group 1 (Plus (Set [Wrd, Ch CHR ''.''])), Plus (Set [Spc]),
                        Lit ''import'', Plus (Set [Spc]), Group 2 (Plus Dot), Eol]"

definition plainImportRe :: regex where
  "plainImportRe = seqs [Bol, Lit ''import'', Plus (Set [Spc]), Group 1 (Plus Dot), Eol]"

definition asRe :: regex where
  "asRe = seqs [Plus (Set [Spc]), Lit ''as'', Plus (Set [Spc])]"

text \<open>\<^verbatim>\<open>n.trim().split(/\s+as\s+/)[0].trim()\<close>.\<close>

definition importedName :: "string \<Rightarrow> string option" where
  "importedName n = do { x \<leftarrow> first (rsplit asRe False (trim n)); Some (trim x) }"

definition parseImports_line :: "nat \<Rightarrow> string \<Rightarrow> ImportInfo list option" where
  "parseImports_line i l =
     (let line = trim l in
      case rexec fromImportRe False line of
        Some fromMatch \<Rightarrow> do {
          g2 \<leftarrow> grp fromMatch 2;
          names \<leftarrow> mapM importedName (splitOn CHR '','' g2);
          g1 \<leftarrow> grp fromMatch 1;
          Some [\<lparr>imp_module = g1, imp_names = filter (\<lambda>n. n \<noteq> []) names, imp_isFrom = True,
                 imp_lineNumber = i + 1\<rparr>] }
      | None \<Rightarrow>
          (case rexec plainImportRe False line of
             Some importMatch \<Rightarrow> do {
               g1 \<leftarrow> grp importMatch 1;
               modules \<leftarrow> mapM importedName (splitOn CHR '','' g1);
               Some (map (\<lambda>md. \<lparr>imp_module = md, imp_names = [md], imp_isFrom = False,
                                    imp_lineNumber = i + 1\<rparr>) modules) }
           | None \<Rightarrow> Some []))"

definition parseImports :: "string list \<Rightarrow> ImportInfo list option" where
  "parseImports lines = forLines parseImports_line 0 lines"

subsection \<open>Classes and functions\<close>

text \<open>
  \<^verbatim>\<open>/^class\s+(\w+)\s*(?:\(([^)]*)\))?\s*:/\<close>,
  \<^verbatim>\<open>/self\.(\w+)\s*(?::\s*(\w+))?\s*=/\<close>,
  \<^verbatim>\<open>/^(\s*)(async\s+)?def\s+(\w+)\s*\(([^)]*)\)\s*(?:->\s*(.+?))?\s*:/\<close> and
  \<^verbatim>\<open>/^(async\s+)?def\s+(\w+)\s*\(([^)]*)\)\s*(?:->\s*(.+?))?\s*:/\<close>.
\<close>

definition classRe :: regex where
  "classRe = seqs [Bol, Lit ''class'', Plus (Set [Spc]), Group 1 (Plus (Set [Wrd])),
                   Star (Set [Spc]),
                   Opt (seqs [Lit ''('', Group 2 (Star (NSet [Ch CHR '')''])), Lit '')'']),
                   Star (Set [Spc]), Lit '':'']"

definition selfAttrRe :: regex where
  "selfAttrRe = seqs [Lit ''self.'', Group 1 (Plus (Set [Wrd])), Star (Set [Spc]),
                      Opt (seqs [Lit '':'', Star (Set [Spc]), Group 2 (Plus (Set [Wrd]))]),
                      Star (Set [Spc]), Lit ''='']"

definition methodDefRe :: regex where
  "methodDefRe = seqs [Bol, Group 1 (Star (Set [Spc])),
                       Opt (Group 2 (seqs [Lit ''async'', Plus (Set [Spc])])),
                       Lit ''def'', Plus (Set [Spc]), Group 3 (Plus (Set [Wrd])),
                       Star (Set [Spc]), Lit ''('', Group 4 (Star (NSet [Ch CHR '')''])), Lit '')'',
                       Star (Set [Spc]),
                       Opt (seqs [Lit ''->'', Star (Set [Spc]), Group 5 (LazyPlus Dot)]),
                       Star (Set [Spc]), Lit '':'']"

definition funcDefRe :: regex where
  "funcDefRe = seqs [Bol, Opt (Group 1 (seqs [Lit ''async'', Plus (Set [Spc])])),
                     Lit ''def'', Plus (Set [Spc]), Group 2 (Plus (Set [Wrd])),
                     Star (Set [Spc]), Lit ''('', Group 3 (Star (NSet [Ch CHR '')''])), Lit '')'',
                     Star (Set [Spc]),
                     Opt (seqs [Lit ''->'', Star (Set [Spc]), Group 4 (LazyPlus Dot)]),
                     Star (Set [Spc]), Lit '':'']"

text \<open>
  \<^verbatim>\<open>parseClassAttributes\<close>: the loop from the line after the class header; it stops at
  the first non-blank line indented no deeper than the header. An attribute is pushed
  when no attribute of its name is there yet.
\<close>

definition parseClassAttributes_step ::
  "nat \<Rightarrow> PortInfo list \<Rightarrow> nat \<Rightarrow> string \<Rightarrow> PortInfo list ctl option" where
  "parseClassAttributes_step classIndent attrs i line =
     (if trim line = [] then Some (Go attrs)
      else do {
        currentIndent \<leftarrow> getIndent line;
        if currentIndent \<le> classIndent \<and> trim line \<noteq> [] then Some Stop
        else
          (case rexec selfAttrRe False line of
             None \<Rightarrow> Some (Go attrs)
           | Some selfAttr \<Rightarrow> do {
               n \<leftarrow> grp selfAttr 1;
               Some (Go (if \<exists>a \<in> set attrs. port_name a = n then attrs
                         else attrs @ [\<lparr>port_name = n,
                                         port_type = orElse (grp selfAttr 2) ''Any'',
                                         port_default = None\<rparr>])) }) })"

definition parseClassAttributes :: "string list \<Rightarrow> nat \<Rightarrow> PortInfo list option" where
  "parseClassAttributes lines classLineIdx = do {
     header \<leftarrow> nth_opt lines classLineIdx;
     classIndent \<leftarrow> getIndent header;
     foldLines (parseClassAttributes_step classIndent) [] (Suc classLineIdx)
       (drop (Suc classLineIdx) lines) }"

text \<open>
  \<^verbatim>\<open>parseClassMethods\<close>: the same loop; \<^verbatim>\<open>self\<close> and \<^verbatim>\<open>cls\<close> are dropped from the
  parameters.
\<close>

definition parseClassMethods_step ::
  "string list \<Rightarrow> nat \<Rightarrow> nat \<Rightarrow> string \<Rightarrow> MethodInfo step option" where
  "parseClassMethods_step lines classIndent i line =
     (if trim line = [] then Some (Push [])
      else do {
        currentIndent \<leftarrow> getIndent line;
        if currentIndent \<le> classIndent \<and> trim line \<noteq> [] then Some Break
        else
          (case rexec methodDefRe False line of
             None \<Rightarrow> Some (Push [])
           | Some defMatch \<Rightarrow> do {
               indent \<leftarrow> getIndent line;
               if indent \<ge> classIndent + 4 then do {
                 g4 \<leftarrow> grp defMatch 4;
                 g3 \<leftarrow> grp defMatch 3;
                 complexity \<leftarrow> countBranches lines i;
                 Some (Push [\<lparr>meth_name = g3,
                       meth_params = filter (\<lambda>p. port_name p \<noteq> ''self'' \<and> port_name p \<noteq> ''cls'')
                                       (parseParams g4),
                       meth_returnType = orElse (map_option trim (grp defMatch 5)) ''Any'',
                       meth_decorators = collectDecorators lines i,
                       meth_lineNumber = i + 1,
                       meth_isAsync = truthy (grp defMatch 2),
                       meth_isPrivate = startsWith g3 ''_'',
                       meth_complexity = complexity\<rparr>]) }
               else Some (Push []) }) })"

definition parseClassMethods :: "string list \<Rightarrow> nat \<Rightarrow> MethodInfo list option" where
  "parseClassMethods lines classLineIdx = do {
     header \<leftarrow> nth_opt lines classLineIdx;
     classIndent \<leftarrow> getIndent header;
     loopLines (parseClassMethods_step lines classIndent) (Suc classLineIdx)
       (drop (Suc classLineIdx) lines) }"

definition parseClasses_line :: "string list \<Rightarrow> nat \<Rightarrow> string \<Rightarrow> ClassInfo list option" where
  "parseClasses_line lines i line =
     (case rexec classRe False line of
        None \<Rightarrow> Some []
      | Some classMatch \<Rightarrow> do {
          methods \<leftarrow> parseClassMethods lines i;
          attributes \<leftarrow> parseClassAttributes lines i;
          g1 \<leftarrow> grp classMatch 1;
          Some [\<lparr>cls_name = g1,
                 cls_bases = (if truthy (grp classMatch 2)
                              then filter (\<lambda>b. b \<noteq> [])
                                     (map trim (splitOn CHR '','' (orElse (grp classMatch 2) [])))
                              else []),
                 cls_methods = methods, cls_attributes = attributes,
                 cls_decorators = collectDecorators lines i,
                 cls_lineNumber = i + 1\<rparr>] })"

definition parseClasses :: "string list \<Rightarrow> ClassInfo list option" where
  "parseClasses lines = forLines (parseClasses_line lines) 0 lines"

definition parseTopLevelFunctions_line :: "string list \<Rightarrow> nat \<Rightarrow> string \<Rightarrow> MethodInfo list option" where
  "parseTopLevelFunctions_line lines i line =
     (case rexec funcDefRe False line of
        None \<Rightarrow> Some []
      | Some defMatch \<Rightarrow> do {
          g3 \<leftarrow> grp defMatch 3;
          g2 \<leftarrow> grp defMatch 2;
          complexity \<leftarrow> countBranches lines i;
          Some [\<lparr>meth_name = g2, meth_params = parseParams g3,
                 meth_returnType = orElse (map_option trim (grp defMatch 4)) ''Any'',
                 meth_decorators = collectDecorators lines i,
                 meth_lineNumber = i + 1,
                 meth_isAsync = truthy (grp defMatch 1),
                 meth_isPrivate = startsWith g2 ''_'',
                 meth_complexity = complexity\<rparr>] })"

definition parseTopLevelFunctions :: "string list \<Rightarrow> MethodInfo list option" where
  "parseTopLevelFunctions lines = forLines (parseTopLevelFunctions_line lines) 0 lines"

subsection \<open>Module-level constants\<close>

text \<open>
  \<^verbatim>\<open>/^([A-Z_][A-Z0-9_]*)\s*(?::\s*(\w+))?\s*=\s*(.+)$/\<close> of \<^verbatim>\<open>parseGlobalVars\<close>;
  \<^verbatim>\<open>/^-?\d+$/\<close>, \<^verbatim>\<open>/^-?\d+\.\d+$/\<close> and \<^verbatim>\<open>/^["']/\<close> of \<^verbatim>\<open>inferType\<close>.
\<close>

definition constRe :: regex where
  "constRe = seqs [Bol,
                   Group 1 (Seq (Set [Rng CHR ''A'' CHR ''Z'', Ch CHR ''_''])
                                (Star (Set [Rng CHR ''A'' CHR ''Z'', Rng CHR ''0'' CHR ''9'',
                                            Ch CHR ''_'']))),
                   Star (Set [Spc]),
                   Opt (seqs [Lit '':'', Star (Set [Spc]), Group 2 (Plus (Set [Wrd]))]),
                   Star (Set [Spc]), Lit ''='', Star (Set [Spc]), Group 3 (Plus Dot), Eol]"

definition intRe :: regex where
  "intRe = seqs [Bol, Opt (Lit ''-''), Plus (Set [Dig]), Eol]"

definition floatRe :: regex where
  "floatRe = seqs [Bol, Opt (Lit ''-''), Plus (Set [Dig]), Lit ''.'', Plus (Set [Dig]), Eol]"

definition quoteStartRe :: regex where
  "quoteStartRe = seqs [Bol, Set [Ch dq, Ch sq]]"

definition inferType :: "string \<Rightarrow> string" where
  "inferType v0 =
     (let v = trim v0 in
      if v = ''True'' \<or> v = ''False'' then ''bool''
      else if rtest intRe False v then ''int''
      else if rtest floatRe False v then ''float''
      else if rtest quoteStartRe False v then ''str''
      else if startsWith v ''['' then ''list''
      else if startsWith v ''{'' then ''dict''
      else if startsWith v ''('' then ''tuple''
      else ''Any'')"

definition parseGlobalVars_line :: "nat \<Rightarrow> string \<Rightarrow> PortInfo list option" where
  "parseGlobalVars_line i line = do {
     indent \<leftarrow> getIndent line;
     if indent \<noteq> 0 then Some []
     else
       (case rexec constRe False line of
          None \<Rightarrow> Some []
        | Some constMatch \<Rightarrow> do {
            g1 \<leftarrow> grp constMatch 1;
            g3 \<leftarrow> grp constMatch 3;
            Some [\<lparr>port_name = g1,
                   port_type = (if truthy (grp constMatch 2) then orElse (grp constMatch 2) []
                                else inferType g3),
                   port_default = Some (trim g3)\<rparr>] }) }"

definition parseGlobalVars :: "string list \<Rightarrow> PortInfo list option" where
  "parseGlobalVars lines = forLines parseGlobalVars_line 0 lines"

subsection \<open>Risk points, connections, code lines\<close>

definition parseDebugPoints_line :: "nat \<Rightarrow> string \<Rightarrow> nat list option" where
  "parseDebugPoints_line i l =
     (let trimmed = trim l in
      if startsWith trimmed ''try:'' \<or> startsWith trimmed ''except ''
         \<or> startsWith trimmed ''except:''
      then Some [i + 1] else Some [])"

definition parseDebugPoints :: "string list \<Rightarrow> nat list option" where
  "parseDebugPoints lines = forLines parseDebugPoints_line 0 lines"

definition buildConnections :: "ImportInfo list \<Rightarrow> string list" where
  "buildConnections imports =
     foldl (\<lambda>conns imp.
              foldl (\<lambda>c name. if name \<noteq> ''*'' then set_add c name else c)
                    (set_add conns (imp_module imp)) (imp_names imp))
           [] imports"

text \<open>\<^verbatim>\<open>countCodeLines\<close>: the state is the count and the flag \<^verbatim>\<open>inDocstring\<close>.\<close>

definition tripleDq :: string where "tripleDq = [dq, dq, dq]"
definition tripleSq :: string where "tripleSq = [sq, sq, sq]"

fun countCodeLines_loop :: "nat \<Rightarrow> bool \<Rightarrow> string list \<Rightarrow> nat" where
  "countCodeLines_loop count inDocstring [] = count"
| "countCodeLines_loop count inDocstring (line # ls) =
     (let trimmed = trim line in
      if startsWith trimmed tripleDq \<or> startsWith trimmed tripleSq then
        (if inDocstring then countCodeLines_loop count False ls
         else if length trimmed > 3 \<and> endsWith trimmed (take 3 trimmed)
         then countCodeLines_loop count inDocstring ls
         else countCodeLines_loop count True ls)
      else if inDocstring then countCodeLines_loop count inDocstring ls
      else if trimmed = [] then countCodeLines_loop count inDocstring ls
      else if startsWith trimmed ''#'' then countCodeLines_loop count inDocstring ls
      else countCodeLines_loop (count + 1) inDocstring ls)"

definition countCodeLines :: "string list \<Rightarrow> nat" where
  "countCodeLines lines = countCodeLines_loop 0 False lines"

subsection \<open>Unused-symbol detection\<close>

text \<open>
  \<^verbatim>\<open>detectUnusedCode\<close> (pythonParser.ts). Its patterns: \<^verbatim>\<open>/#.*$/g\<close>,
  \<^verbatim>\<open>/"""[\s\S]*?"""|'''[\s\S]*?'''/g\<close>, \<^verbatim>\<open>/"(?:[^"\\]|\\.)*"/g\<close>,
  \<^verbatim>\<open>/'(?:[^'\\]|\\.)*'/g\<close>, the same two after an \<^verbatim>\<open>f\<close>, \<^verbatim>\<open>/^typing/\<close> and
  \<^verbatim>\<open>/def\s+\w+/g\<close>.
\<close>

definition typingSkip :: "string list" where
  "typingSkip = [
    ''Dict'', ''List'', ''Set'', ''Tuple'', ''Optional'', ''Union'', ''Any'', ''Type'',
    ''Callable'', ''Iterator'', ''Generator'', ''Sequence'', ''Mapping'', ''Iterable'',
    ''ClassVar'', ''Final'', ''Literal'', ''TypeVar'', ''Generic'', ''Protocol'',
    ''Awaitable'', ''Coroutine'', ''AsyncIterator'', ''AsyncGenerator'',
    ''NamedTuple'', ''TypedDict'', ''Annotated'', ''TypeAlias'', ''Self'']"

definition hashCommentRe :: regex where
  "hashCommentRe = seqs [Lit ''#'', Star Dot, Eol]"

definition tripleQuotedRe :: regex where
  "tripleQuotedRe =
     Alt (seqs [Lit tripleDq, LazyStar (Set [Spc, NSpc]), Lit tripleDq])
         (seqs [Lit tripleSq, LazyStar (Set [Spc, NSpc]), Lit tripleSq])"

definition dqStringRe :: regex where
  "dqStringRe = seqs [Lit [dq], Star (Alt (NSet [Ch dq, Ch bslash]) (Seq (Lit [bslash]) Dot)),
                      Lit [dq]]"

definition sqStringRe :: regex where
  "sqStringRe = seqs [Lit [sq], Star (Alt (NSet [Ch sq, Ch bslash]) (Seq (Lit [bslash]) Dot)),
                      Lit [sq]]"

definition fdqStringRe :: regex where
  "fdqStringRe = Seq (Lit ''f'') dqStringRe"

definition fsqStringRe :: regex where
  "fsqStringRe = Seq (Lit ''f'') sqStringRe"

definition typingRe :: regex where
  "typingRe = seqs [Bol, Lit ''typing'']"

definition defNameRe :: regex where
  "defNameRe = seqs [Lit ''def'', Plus (Set [Spc]), Plus (Set [Wrd])]"

text \<open>
  \<^verbatim>\<open>new RegExp('\\b' + escapeRegex(name) + '\\b')\<close>: \<^verbatim>\<open>escapeRegex\<close> puts a backslash
  before every character that has a meaning in a pattern, so the pattern built from its
  result is the name taken literally, between two word boundaries. The call pattern
  \<^verbatim>\<open>'(?:self\\.|\\b)' + escapeRegex(name) + '\\s*\\('\<close> likewise.
\<close>

definition wordRe :: "string \<Rightarrow> regex" where
  "wordRe name = seqs [WordB, Lit name, WordB]"

definition py_callRe :: "string \<Rightarrow> regex" where
  "py_callRe name = seqs [Alt (Lit ''self.'') WordB, Lit name, Star (Set [Spc]), Lit ''('']"

text \<open>The stripping of one line, in the order of the source.\<close>

definition py_stripLine :: "string \<Rightarrow> string" where
  "py_stripLine l =
     rreplace_all fsqStringRe False [sq, sq]
       (rreplace_all fdqStringRe False [dq, dq]
         (rreplace_all sqStringRe False [sq, sq]
           (rreplace_all dqStringRe False [dq, dq]
             (rreplace_all tripleQuotedRe False []
               (rreplace_all hashCommentRe False [] l)))))"

text \<open>
  \<^verbatim>\<open>importLineSet\<close> holds \<^verbatim>\<open>lineNumber - 1\<close> of every import; \<open>onImportLine\<close> is its
  membership test for the index of a line.
\<close>

definition onImportLine :: "ImportInfo list \<Rightarrow> nat \<Rightarrow> bool" where
  "onImportLine imports idx = (\<exists>imp \<in> set imports. int (imp_lineNumber imp) - 1 = int idx)"

definition py_codeOnly :: "string list \<Rightarrow> ImportInfo list \<Rightarrow> string" where
  "py_codeOnly lines imports =
     join [LF] (map (\<lambda>(idx, l). if onImportLine imports idx then [] else py_stripLine l)
                    (enumerate 0 lines))"

definition py_unusedImport :: "string \<Rightarrow> ImportInfo \<Rightarrow> string \<Rightarrow> UnusedItem list" where
  "py_unusedImport codeOnly imp name =
     (if name = ''*'' \<or> length name \<le> 1 then []
      else if rtest typingRe False (imp_module imp) \<or> name \<in> set typingSkip then []
      else if \<not> rtest (wordRe name) False codeOnly
      then [\<lparr>un_name = name, un_kind = UImport, un_lineNumber = imp_lineNumber imp\<rparr>]
      else [])"

text \<open>\<^verbatim>\<open>lines.filter((_, idx) => idx !== m.line - 1).join('\n')\<close>.\<close>

definition linesWithout :: "string list \<Rightarrow> nat \<Rightarrow> string" where
  "linesWithout lines line =
     join [LF] (map snd (filter (\<lambda>(idx, l). int idx \<noteq> int line - 1) (enumerate 0 lines)))"

definition py_unusedMethod :: "string list \<Rightarrow> string \<times> nat \<Rightarrow> UnusedItem list" where
  "py_unusedMethod lines m =
     (if \<not> rtest (py_callRe (fst m)) False (linesWithout lines (snd m)) then
        (if \<not> rtest (wordRe (fst m)) False
                (rreplace_all defNameRe False [] (linesWithout lines (snd m)))
         then [\<lparr>un_name = fst m, un_kind = UMethod, un_lineNumber = snd m\<rparr>]
         else [])
      else [])"

definition py_allMethods :: "ClassInfo list \<Rightarrow> MethodInfo list \<Rightarrow> (string \<times> nat) list" where
  "py_allMethods classes functions =
     map (\<lambda>f. (meth_name f, meth_lineNumber f)) functions @
     concat (map (\<lambda>c. map (\<lambda>m. (meth_name m, meth_lineNumber m))
                        (filter (\<lambda>m. meth_name m \<noteq> ''__init__'' \<and> \<not> startsWith (meth_name m) ''__'')
                                (cls_methods c)))
                 classes)"

definition detectUnusedCode ::
  "string list \<Rightarrow> ImportInfo list \<Rightarrow> ClassInfo list \<Rightarrow> MethodInfo list \<Rightarrow> UnusedItem list" where
  "detectUnusedCode lines imports classes functions =
     concat (map (\<lambda>imp. concat (map (py_unusedImport (py_codeOnly lines imports) imp)
                                      (imp_names imp)))
                 imports) @
     concat (map (py_unusedMethod lines) (py_allMethods classes functions))"

subsection \<open>The annotation block\<close>

text \<open>
  A \<^verbatim>\<open>Record<string, string>\<close> is an association list; \<^verbatim>\<open>obj[k] = v\<close> replaces the
  value of a key that is there and appends a new key otherwise. The order of the keys is
  read by nothing in the extractors. An assignment of a string to the key
  \<^verbatim>\<open>__proto__\<close> has no effect in the language.
\<close>

fun obj_update :: "string \<Rightarrow> string \<Rightarrow> (string \<times> string) list \<Rightarrow> (string \<times> string) list" where
  "obj_update k v [] = [(k, v)]"
| "obj_update k v (p # ps) = (if fst p = k then (k, v) # ps else p # obj_update k v ps)"

definition obj_set :: "(string \<times> string) list \<Rightarrow> string \<Rightarrow> string \<Rightarrow> (string \<times> string) list" where
  "obj_set obj k v = (if k = ''__proto__'' then obj else obj_update k v obj)"

record MetaBlock =
  mb_name :: "string option"
  mb_type :: "string option"
  mb_desc :: "string option"
  mb_inputs :: "string list option"
  mb_outputs :: "string list option"
  mb_deps :: "string list option"
  mb_methods :: "string list option"
  mb_errors :: "string list option"
  mb_raw :: "(string \<times> string) list"

text \<open>
  \<^verbatim>\<open>parseMetaBlock\<close> of pythonParser.ts:
  \<^verbatim>\<open>/#?\s*---meta\s*\n([\s\S]*?)\n#?\s*---/\<close>, \<^verbatim>\<open>/^#\s*/\<close>,
  \<^verbatim>\<open>/^(\w+)\s*:\s*(.+)$/\<close> and \<^verbatim>\<open>/^\[|\]$/g\<close>.
\<close>

definition py_metaRe :: regex where
  "py_metaRe = seqs [Opt (Lit ''#''), Star (Set [Spc]), Lit ''---meta'', Star (Set [Spc]), Lit [LF],
                     Group 1 (LazyStar (Set [Spc, NSpc])), Lit [LF],
                     Opt (Lit ''#''), Star (Set [Spc]), Lit ''---'']"

definition hashPrefixRe :: regex where
  "hashPrefixRe = seqs [Bol, Lit ''#'', Star (Set [Spc])]"

definition py_kvRe :: regex where
  "py_kvRe = seqs [Bol, Group 1 (Plus (Set [Wrd])), Star (Set [Spc]), Lit '':'', Star (Set [Spc]),
                   Group 2 (Plus Dot), Eol]"

definition bracketsRe :: regex where
  "bracketsRe = Alt (Seq Bol (Lit ''['')) (Seq (Lit '']'') Eol)"

definition py_parseList :: "string option \<Rightarrow> string list" where
  "py_parseList val =
     (if \<not> truthy val then []
      else filter (\<lambda>s. s \<noteq> [])
             (map trim (splitOn CHR '','' (rreplace_all bracketsRe False [] (orElse val [])))))"

definition py_metaLine :: "(string \<times> string) list \<Rightarrow> string \<Rightarrow> (string \<times> string) list option" where
  "py_metaLine raw line =
     (case rexec py_kvRe False (rreplace hashPrefixRe False [] line) of
        None \<Rightarrow> Some raw
      | Some kv \<Rightarrow> do { k \<leftarrow> grp kv 1; v \<leftarrow> grp kv 2; Some (obj_set raw (trim k) (trim v)) })"

definition py_parseMetaBlock :: "string \<Rightarrow> MetaBlock option option" where
  "py_parseMetaBlock code =
     (case rexec py_metaRe False code of
        None \<Rightarrow> Some None
      | Some metaMatch \<Rightarrow> do {
          block \<leftarrow> grp metaMatch 1;
          raw \<leftarrow> foldM py_metaLine [] (splitOn LF block);
          Some (Some \<lparr>mb_name = map_of raw ''name'', mb_type = map_of raw ''type'',
                       mb_desc = map_of raw ''desc'',
                       mb_inputs = Some (py_parseList (map_of raw ''in'')),
                       mb_outputs = Some (py_parseList (map_of raw ''out'')),
                       mb_deps = Some (py_parseList (map_of raw ''deps'')),
                       mb_methods = Some (py_parseList (map_of raw ''methods'')),
                       mb_errors = Some (py_parseList (map_of raw ''errors'')),
                       mb_raw = raw\<rparr>) })"

subsection \<open>Descriptions\<close>

text \<open>A number in a template string: its decimal digits.\<close>

definition digitChar :: "nat \<Rightarrow> char" where
  "digitChar d = char_of (48 + d)"

function showNat :: "nat \<Rightarrow> string" where
  "showNat n = (if n < 10 then [digitChar n] else showNat (n div 10) @ [digitChar (n mod 10)])"
  by pat_completeness auto
termination
  by (relation "measure id") auto

declare showNat.simps [simp del]

definition a_acute :: char where "a_acute = CHR 0xE1"
definition e_acute :: char where "e_acute = CHR 0xE9"
definition i_acute :: char where "i_acute = CHR 0xED"
definition o_acute :: char where "o_acute = CHR 0xF3"
definition u_acute :: char where "u_acute = CHR 0xFA"

text \<open>\<^verbatim>\<open>verbMap\<close> of \<^verbatim>\<open>describeMethod\<close>.\<close>

definition verbMap :: "(string \<times> string) list" where
  "verbMap = [
    (''get'', ''obtiene''), (''find'', ''busca''), (''search'', ''busca''),
    (''create'', ''crea''), (''add'', ''agrega''), (''insert'', ''inserta''),
    (''update'', ''actualiza''), (''edit'', ''edita''), (''modify'', ''modifica''),
    (''delete'', ''elimina''), (''remove'', ''remueve''), (''destroy'', ''destruye''),
    (''validate'', ''valida''), (''check'', ''verifica''), (''verify'', ''verifica''),
    (''send'', ''env'' @ [i_acute] @ ''a''), (''emit'', ''emite''), (''notify'', ''notifica''),
    (''save'', ''guarda''), (''store'', ''almacena''), (''persist'', ''persiste''),
    (''load'', ''carga''), (''fetch'', ''obtiene''), (''retrieve'', ''recupera''),
    (''process'', ''procesa''), (''handle'', ''maneja''), (''execute'', ''ejecuta''),
    (''convert'', ''convierte''), (''transform'', ''transforma''), (''parse'', ''parsea''),
    (''init'', ''inicializa''), (''setup'', ''configura''), (''configure'', ''configura''),
    (''login'', ''autentica''), (''logout'', ''cierra sesi'' @ [o_acute] @ ''n''),
    (''auth'', ''autentica''),
    (''register'', ''registra''), (''signup'', ''registra''),
    (''list'', ''lista''), (''count'', ''cuenta''), (''filter'', ''filtra''),
    (''sort'', ''ordena''), (''group'', ''agrupa''), (''merge'', ''combina''),
    (''export'', ''exporta''), (''import'', ''importa''), (''download'', ''descarga''),
    (''upload'', ''sube''), (''sync'', ''sincroniza''), (''refresh'', ''refresca''),
    (''start'', ''inicia''), (''stop'', ''detiene''), (''run'', ''ejecuta''),
    (''open'', ''abre''), (''close'', ''cierra''), (''connect'', ''conecta''),
    (''disconnect'', ''desconecta''), (''reset'', ''reinicia''), (''clear'', ''limpia''),
    (''set'', ''establece''), (''enable'', ''habilita''), (''disable'', ''deshabilita''),
    (''show'', ''muestra''), (''hide'', ''oculta''), (''render'', ''renderiza''),
    (''build'', ''construye''), (''generate'', ''genera''), (''compute'', ''calcula''),
    (''calculate'', ''calcula''), (''compare'', ''compara''), (''format'', ''formatea''),
    (''log'', ''registra''), (''track'', ''rastrea''), (''monitor'', ''monitorea''),
    (''subscribe'', ''suscribe''), (''unsubscribe'', ''desuscribe''), (''publish'', ''publica''),
    (''map'', ''mapea''), (''reduce'', ''reduce''), (''collect'', ''recolecta''),
    (''assign'', ''asigna''), (''allocate'', ''asigna''), (''distribute'', ''distribuye''),
    (''lock'', ''bloquea''), (''unlock'', ''desbloquea''), (''encrypt'', ''encripta''),
    (''decrypt'', ''desencripta''), (''hash'', ''hashea''), (''sign'', ''firma''),
    (''schedule'', ''programa''), (''queue'', ''encola''), (''retry'', ''reintenta''),
    (''rollback'', ''revierte''), (''commit'', ''confirma''), (''migrate'', ''migra''),
    (''backup'', ''respalda''), (''restore'', ''restaura''), (''archive'', ''archiva''),
    (''test'', ''prueba''), (''mock'', ''simula''), (''stub'', ''simula''),
    (''assert'', ''verifica''), (''expect'', ''espera''), (''match'', ''coincide''),
    (''is'', ''verifica si es''), (''has'', ''verifica si tiene''), (''can'', ''verifica si puede'')]"

text \<open>
  \<^verbatim>\<open>verbMap[verb.toLowerCase()]\<close> reads an object literal, so a key it does not hold is
  looked up in \<^verbatim>\<open>Object.prototype\<close>. The verb is the text before the first underscore,
  in lower case, and the one lower-case name without an underscore that the prototype
  holds is \<^verbatim>\<open>constructor\<close>: a function, which the template prints as below.
\<close>

definition objectConstructorText :: string where
  "objectConstructorText = ''function Object() { [native code] }''"

definition verbLookup :: "string \<Rightarrow> string option" where
  "verbLookup k =
     (case map_of verbMap k of
        Some v \<Rightarrow> Some v
      | None \<Rightarrow> if k = ''constructor'' then Some objectConstructorText else None)"

definition describeMethod :: "MethodInfo \<Rightarrow> string" where
  "describeMethod m =
     (let parts = splitOn CHR ''_'' (meth_name m);
          verb = split0 CHR ''_'' (meth_name m);
          subject = join '' '' (drop 1 parts)
      in case verbLookup (toLowerCase verb) of
           Some spanishVerb \<Rightarrow>
             if subject \<noteq> [] then
               spanishVerb @ '' '' @ subject @
               (if meth_returnType m \<noteq> ''Any'' \<and> meth_returnType m \<noteq> ''None''
                then '' (retorna '' @ meth_returnType m @ '')'' else [])
             else []
         | None \<Rightarrow> [])"

text \<open>\<^verbatim>\<open>/\.py$/\<close> and \<^verbatim>\<open>/Error|Exception/\<close>.\<close>

definition pyExtRe :: regex where
  "pyExtRe = seqs [Lit ''.py'', Eol]"

definition errorBaseRe :: regex where
  "errorBaseRe = Alt (Lit ''Error'') (Lit ''Exception'')"

definition isErrorClass :: "ClassInfo \<Rightarrow> bool" where
  "isErrorClass c = list_ex (rtest errorBaseRe False) (cls_bases c)"

definition publicActions :: "ClassInfo \<Rightarrow> MethodInfo list" where
  "publicActions c = filter (\<lambda>m. meth_name m \<noteq> ''__init__'' \<and> \<not> meth_isPrivate m) (cls_methods c)"

definition plural :: "nat \<Rightarrow> string \<Rightarrow> string" where
  "plural n suffix = (if n \<noteq> 1 then suffix else [])"

definition generateFileDescription ::
  "MetaBlock option \<Rightarrow> ClassInfo list \<Rightarrow> MethodInfo list \<Rightarrow> ImportInfo list \<Rightarrow> string \<Rightarrow> string" where
  "generateFileDescription meta classes functions imports fileName =
     (let name = orElse (case meta of None \<Rightarrow> None | Some mb \<Rightarrow> mb_name mb)
                        (rreplace pyExtRe False [] fileName);
          type = orElse (case meta of None \<Rightarrow> None | Some mb \<Rightarrow> mb_type mb) ''module'';
          main =
            (if type = ''service'' then
               (case (case find (\<lambda>c. str_includes (toLowerCase (cls_name c)) ''service'') classes of
                        Some c \<Rightarrow> Some c | None \<Rightarrow> first classes) of
                  Some mainClass \<Rightarrow>
                    (let actions = filter (\<lambda>s. s \<noteq> []) (map describeMethod (publicActions mainClass))
                     in [name @ '' es un servicio que '' @
                         (if length actions > 0 then join '', '' actions
                          else ''gestiona operaciones de negocio'') @ ''.''])
                | None \<Rightarrow> [name @ '' es un servicio.''])
             else if type = ''model'' then
               (case filter (\<lambda>c. \<not> isErrorClass c) classes of
                  [] \<Rightarrow> []
                | model # _ \<Rightarrow>
                    (let attrs = join '', '' (map port_name (cls_attributes model))
                     in [name @ '' define el modelo de datos '' @ cls_name model @
                         (if attrs \<noteq> [] then '' con atributos: '' @ attrs else []) @ ''.'']))
             else if type = ''controller'' then
               [name @ '' maneja las rutas y peticiones HTTP del recurso.'']
             else if type = ''util'' then
               [name @ '' provee funciones utilitarias: '' @ join '', '' (map meth_name functions) @ ''.'']
             else
               [name @ '' es un m'' @ [o_acute] @ ''dulo que contiene '' @ showNat (length classes) @
                '' clase'' @ plural (length classes) ''s'' @ '' y '' @ showNat (length functions) @
                '' funci'' @ [o_acute] @ ''n'' @ plural (length functions) ''es'' @ ''.'']);
          externalDeps = map imp_module (filter (\<lambda>i. \<not> startsWith (imp_module i) ''.'') imports);
          deps = (if length externalDeps > 0
                  then [''Depende de: '' @ join '', '' externalDeps @ ''.''] else []);
          asyncMethods = filter meth_isAsync functions @
                         concat (map (\<lambda>c. filter meth_isAsync (cls_methods c)) classes);
          asyncNote = (if length asyncMethods > 0
                       then [''Usa operaciones as'' @ [i_acute] @ ''ncronas ('' @
                             showNat (length asyncMethods) @ '' m'' @ [e_acute] @ ''todo'' @
                             (if length asyncMethods > 1 then ''s'' else []) @ '' async).'']
                       else [])
      in join '' '' (main @ deps @ asyncNote))"

definition generateClassDescription :: "ClassInfo \<Rightarrow> string" where
  "generateClassDescription c =
     (if isErrorClass c then
        cls_name c @ '' es una excepci'' @ [o_acute] @ ''n personalizada que extiende '' @
        join '', '' (cls_bases c) @ ''.''
      else
        (let publicMethods = publicActions c;
             n = length publicMethods;
             body =
               (if n = 0 then
                  (if length (cls_attributes c) > 0 then
                     cls_name c @ '' es un modelo de datos con '' @ showNat (length (cls_attributes c)) @
                     '' atributo'' @ (if length (cls_attributes c) > 1 then ''s'' else []) @ '': '' @
                     join '', '' (map port_name (cls_attributes c)) @ ''.''
                   else cls_name c @ '' es una clase base.'')
                else
                  (let actions = filter (\<lambda>s. s \<noteq> []) (map describeMethod publicMethods)
                   in cls_name c @ '' '' @
                      (if length actions > 0 then join '', '' actions
                       else ''contiene '' @ showNat n @ '' m'' @ [e_acute] @ ''todo'' @
                            (if n > 1 then ''s'' else []) @ '' p'' @ [u_acute] @ ''blico'' @
                            (if n > 1 then ''s'' else [])) @ ''.''));
             init = (case find (\<lambda>m. meth_name m = ''__init__'') (cls_methods c) of
                       Some i \<Rightarrow> if length (meth_params i) > 0
                                 then [''Recibe '' @ join '', '' (map port_name (meth_params i)) @
                                       '' en su constructor.'']
                                 else []
                     | None \<Rightarrow> []);
             inherit = (if length (cls_bases c) > 0 \<and> \<not> isErrorClass c
                        then [''Extiende '' @ join '', '' (cls_bases c) @ ''.''] else [])
         in join '' '' ([body] @ init @ inherit)))"

definition generateClassDescriptions :: "ClassInfo list \<Rightarrow> (string \<times> string) list" where
  "generateClassDescriptions classes =
     foldl (\<lambda>descs c. obj_set descs (cls_name c) (generateClassDescription c)) [] classes"

subsection \<open>The summary\<close>

record DiagnosticItem =
  dg_message :: string
  dg_severity :: string
  dg_lineNumber :: nat
  dg_source :: string
  dg_code :: string

record TodoItem =
  td_text :: string
  td_type :: string
  td_lineNumber :: nat

record ExternalUsage =
  eu_name :: string
  eu_kind :: string
  eu_usedIn :: "string list"

record FileStats =
  fs_fileName :: string
  fs_language :: string
  fs_meta :: "MetaBlock option"
  fs_classes :: "ClassInfo list"
  fs_functions :: "MethodInfo list"
  fs_imports :: "ImportInfo list"
  fs_globalVars :: "PortInfo list"
  fs_connections :: "string list"
  fs_errorTypes :: "string list"
  fs_debugPoints :: "nat list"
  fs_totalLines :: nat
  fs_codeLines :: nat
  fs_warnings :: "string list"
  fs_description :: string
  fs_classDescriptions :: "(string \<times> string) list"
  fs_hardcoded :: "HardcodedValue list"
  fs_unused :: "UnusedItem list"
  fs_diagnostics :: "DiagnosticItem list"
  fs_depIssues :: "DepIssue list"
  fs_todos :: "TodoItem list"
  fs_externalUsage :: "ExternalUsage list"

definition generateWarnings ::
  "MetaBlock option \<Rightarrow> ImportInfo list \<Rightarrow> ClassInfo list \<Rightarrow> MethodInfo list \<Rightarrow> string list \<Rightarrow> string list" where
  "generateWarnings meta imports classes functions connections = []"

text \<open>\<^verbatim>\<open>meta?.desc || fallback\<close>.\<close>

definition metaDescOr :: "MetaBlock option \<Rightarrow> string \<Rightarrow> string" where
  "metaDescOr meta fallback = orElse (case meta of None \<Rightarrow> None | Some mb \<Rightarrow> mb_desc mb) fallback"

definition parsePythonCode :: "string \<Rightarrow> string \<Rightarrow> FileStats option" where
  "parsePythonCode code fileName = do {
     let lines = splitOn LF code;
     meta \<leftarrow> py_parseMetaBlock code;
     imports \<leftarrow> parseImports lines;
     classes \<leftarrow> parseClasses lines;
     functions \<leftarrow> parseTopLevelFunctions lines;
     globalVars \<leftarrow> parseGlobalVars lines;
     errorTypes \<leftarrow> parseErrorTypes lines;
     debugPoints \<leftarrow> parseDebugPoints lines;
     hardcoded \<leftarrow> detectHardcodedValues lines;
     let connections = buildConnections imports;
     Some \<lparr>fs_fileName = fileName, fs_language = ''python'', fs_meta = meta,
            fs_classes = classes, fs_functions = functions, fs_imports = imports,
            fs_globalVars = globalVars, fs_connections = connections,
            fs_errorTypes = errorTypes, fs_debugPoints = debugPoints,
            fs_totalLines = length lines, fs_codeLines = countCodeLines lines,
            fs_warnings = generateWarnings meta imports classes functions connections,
            fs_description = metaDescOr meta
              (generateFileDescription meta classes functions imports fileName),
            fs_classDescriptions = generateClassDescriptions classes,
            fs_hardcoded = hardcoded,
            fs_unused = detectUnusedCode lines imports classes functions,
            fs_diagnostics = [], fs_depIssues = [], fs_todos = [], fs_externalUsage = []\<rparr> }"

section \<open>Evaluation of the character functions\<close>

text \<open>
  The character functions on the eight bits of a character (least significant first),
  each proved equal to its definition; concrete inputs are evaluated with these.
\<close>

lemma isDigit_code [code]:
  "isDigit (Char b0 b1 b2 b3 b4 b5 b6 b7) =
     (b4 \<and> b5 \<and> \<not> b6 \<and> \<not> b7 \<and> (\<not> b3 \<or> (\<not> b2 \<and> \<not> b1)))"
  unfolding isDigit_def
  by (cases b0; cases b1; cases b2; cases b3; cases b4; cases b5; cases b6; cases b7; simp)

lemma isWordChar_code [code]:
  "isWordChar (Char b0 b1 b2 b3 b4 b5 b6 b7) =
     (\<not> b7 \<and>
      ((b6 \<and> low5_letter b0 b1 b2 b3 b4) \<or>
       (\<not> b6 \<and> b5 \<and> b4 \<and> (\<not> b3 \<or> (\<not> b2 \<and> \<not> b1))) \<or>
       (b6 \<and> \<not> b5 \<and> b4 \<and> b3 \<and> b2 \<and> b1 \<and> b0)))"
  unfolding isWordChar_def low5_letter_def
  by (cases b0; cases b1; cases b2; cases b3; cases b4; cases b5; cases b6; cases b7; simp)

lemma isSpace_code [code]:
  "isSpace (Char b0 b1 b2 b3 b4 b5 b6 b7) =
     ((\<not> b7 \<and> \<not> b6 \<and> \<not> b5 \<and> \<not> b4 \<and> b3 \<and> (b2 \<longrightarrow> \<not> b1) \<and> (b2 \<or> b1 \<or> b0)) \<or>
      (\<not> b6 \<and> b5 \<and> \<not> b4 \<and> \<not> b3 \<and> \<not> b2 \<and> \<not> b1 \<and> \<not> b0))"
  unfolding isSpace_def
  by (cases b0; cases b1; cases b2; cases b3; cases b4; cases b5; cases b6; cases b7; simp)

lemma isLineTerminator_code [code]:
  "isLineTerminator (Char b0 b1 b2 b3 b4 b5 b6 b7) =
     (\<not> b7 \<and> \<not> b6 \<and> \<not> b5 \<and> \<not> b4 \<and> b3 \<and> ((\<not> b2 \<and> b1 \<and> \<not> b0) \<or> (b2 \<and> \<not> b1 \<and> b0)))"
  unfolding isLineTerminator_def
  by (cases b0; cases b1; cases b2; cases b3; cases b4; cases b5; cases b6; cases b7; simp)

lemma toUpperChar_code [code]:
  "toUpperChar (Char b0 b1 b2 b3 b4 b5 b6 b7) =
     (if \<not> b7 \<and> b6 \<and> b5 \<and> low5_letter b0 b1 b2 b3 b4
      then Char b0 b1 b2 b3 b4 False b6 b7 else Char b0 b1 b2 b3 b4 b5 b6 b7)"
  unfolding toUpperChar_def low5_letter_def
  by (cases b0; cases b1; cases b2; cases b3; cases b4; cases b5; cases b6; cases b7;
      simp add: char_of_def bit_Suc_0_iff)

lemma toLowerChar_code [code]:
  "toLowerChar (Char b0 b1 b2 b3 b4 b5 b6 b7) =
     (if (\<not> b7 \<and> b6 \<and> \<not> b5 \<and> low5_letter b0 b1 b2 b3 b4) \<or>
         (b7 \<and> b6 \<and> \<not> b5 \<and> \<not> (b4 \<and> b3 \<and> b2 \<and> b1 \<and> b0) \<and>
          \<not> (b4 \<and> \<not> b3 \<and> b2 \<and> b1 \<and> b0))
      then Char b0 b1 b2 b3 b4 True b6 b7 else Char b0 b1 b2 b3 b4 b5 b6 b7)"
  unfolding toLowerChar_def low5_letter_def
  by (cases b0; cases b1; cases b2; cases b3; cases b4; cases b5; cases b6; cases b7;
      simp add: char_of_def bit_Suc_0_iff)

section \<open>Properties of the matcher\<close>

lemma quantc_quant: "quantc g mn mx p st cs = quant g mn mx (one_char p) st cs"
proof (induction g mn mx p st cs rule: quantc.induct)
  case (1 g mn mx p prev acc cs)
  show ?case by (auto simp: quant.simps)
next
  case (2 g mn mx p prev c rest acc cs)
  show ?case
  proof (cases "p c")
    case True
    with 2 show ?thesis by (auto simp: quant.simps st_rest_def)
  next
    case False
    then show ?thesis by (auto simp: quant.simps st_rest_def)
  qed
qed

lemma rmatch_Quant_code [code]:
  "rmatch (Quant g mn mx r) ci =
     (case r of
        Set its \<Rightarrow> quantc g mn mx (cset_match ci its)
      | NSet its \<Rightarrow> quantc g mn mx (\<lambda>c. \<not> cset_match ci its c)
      | Dot \<Rightarrow> quantc g mn mx (\<lambda>c. \<not> isLineTerminator c)
      | _ \<Rightarrow> quant g mn mx (rmatch r ci))"
  by (cases r) (auto simp: quantc_quant fun_eq_iff)

lemmas rmatch_code [code] = rmatch.simps(1,2,3,4,5,6,8,9,10,11)


lemma cdom_Cons [simp]: "cdom ((n, v) # cs) = insert n (cdom cs)"
  by (simp add: cdom_def)

lemma cdom_Nil [simp]: "cdom [] = {}"
  by (simp add: cdom_def)

lemma lit_match_caps: "(st', cs') \<in> set (lit_match ci w st cs) \<Longrightarrow> cs' = cs"
  by (induction ci w st cs rule: lit_match.induct) (auto split: if_splits)

lemma one_char_caps: "(st', cs') \<in> set (one_char p st cs) \<Longrightarrow> cs' = cs"
  by (induction p st cs rule: one_char.induct) (auto split: if_splits)

lemma bindm_set:
  "set (bindm rs f) = (\<Union>(st, cs) \<in> set rs. set (f st cs))"
  by (induction rs f rule: bindm.induct) auto

lemma set_group_caps:
  "(st', cs') \<in> set (set_group n acc0 rs) \<Longrightarrow> \<exists>x \<in> set rs. \<exists>v. cs' = (n, v) # snd x"
  by (induction n acc0 rs rule: set_group.induct) auto

lemma quant_caps_aux:
  assumes f: "\<And>st cs st' cs'. (st', cs') \<in> set (f st cs) \<Longrightarrow> cdom cs \<union> M \<subseteq> cdom cs'"
  shows "(st', cs') \<in> set (quant g mn mx f st cs) \<Longrightarrow>
           cdom cs \<subseteq> cdom cs' \<and> (0 < mn \<and> mx \<noteq> Some 0 \<longrightarrow> M \<subseteq> cdom cs')"
    and "(st', cs') \<in> set (quant_iter g mn mx f n rs) \<Longrightarrow>
           \<exists>(st1, cs1) \<in> set rs. cdom cs1 \<subseteq> cdom cs'"
  using f
proof (induction g mn mx f st cs and g mn mx f n rs arbitrary: st' cs' and st' cs'
       rule: quant_quant_iter.induct)
  case (1 g mn mx f st cs)
  note fp = "1.prems"(2)
  note mem = "1.prems"(1)
  show ?case
  proof (cases "mx = Some 0")
    case True
    with mem show ?thesis by (simp add: quant.simps)
  next
    case False
    from mem False
    have "(st', cs') = (st, cs) \<and> mn = 0 \<or>
          (st', cs') \<in> set (quant_iter g mn mx f (length (st_rest st)) (f st cs))"
      by (auto simp: quant.simps split: if_splits)
    then show ?thesis
    proof
      assume "(st', cs') = (st, cs) \<and> mn = 0"
      then show ?thesis by simp
    next
      assume a: "(st', cs') \<in> set (quant_iter g mn mx f (length (st_rest st)) (f st cs))"
      have "\<exists>(st1, cs1) \<in> set (f st cs). cdom cs1 \<subseteq> cdom cs'"
      proof (cases "0 < mn")
        case True
        show ?thesis using "1.IH"(1)[OF False True a fp] .
      next
        case mn0: False
        show ?thesis
        proof (cases g)
          case True
          show ?thesis using "1.IH"(2)[OF False mn0 True a fp] .
        next
          case g: False
          show ?thesis using "1.IH"(3)[OF False mn0 g a fp] .
        qed
      qed
      then obtain st1 cs1 where m: "(st1, cs1) \<in> set (f st cs)"
        and s: "cdom cs1 \<subseteq> cdom cs'"
        by auto
      from fp[OF m] s show ?thesis by blast
    qed
  qed
next
  case (2 g mn mx f n)
  then show ?case by simp
next
  case (3 g mn mx f n st1 cs1 rs)
  note fp = "3.prems"(2)
  from "3.prems"(1) have
    "(\<not> (mn = 0 \<and> n \<le> length (st_rest st1)) \<and>
       (st', cs') \<in> set (quant g (mn - 1) (dec_max mx) f st1 cs1))
     \<or> (st', cs') \<in> set (quant_iter g mn mx f n rs)"
    by (auto split: if_splits)
  then show ?case
  proof
    assume a: "\<not> (mn = 0 \<and> n \<le> length (st_rest st1)) \<and>
       (st', cs') \<in> set (quant g (mn - 1) (dec_max mx) f st1 cs1)"
    then have "cdom cs1 \<subseteq> cdom cs'"
      using "3.IH"(1) fp by blast
    then show ?thesis by simp
  next
    assume "(st', cs') \<in> set (quant_iter g mn mx f n rs)"
    then have "\<exists>(st1, cs1) \<in> set rs. cdom cs1 \<subseteq> cdom cs'"
      using "3.IH"(2) fp by blast
    then show ?thesis by fastforce
  qed
qed

lemma rmatch_caps:
  "(st', cs') \<in> set (rmatch r ci st cs) \<Longrightarrow> cdom cs \<union> mand r \<subseteq> cdom cs'"
proof (induction r arbitrary: st cs st' cs')
  case (Lit w)
  then show ?case using lit_match_caps by fastforce
next
  case Dot
  then show ?case using one_char_caps by fastforce
next
  case (Set its)
  then show ?case using one_char_caps by fastforce
next
  case (NSet its)
  then show ?case using one_char_caps by fastforce
next
  case (Seq r1 r2)
  from Seq.prems obtain st1 cs1 where a: "(st1, cs1) \<in> set (rmatch r1 ci st cs)"
    and b: "(st', cs') \<in> set (rmatch r2 ci st1 cs1)"
    by (auto simp: bindm_set)
  from Seq.IH(1)[OF a] Seq.IH(2)[OF b] show ?case by (simp only: mand.simps) blast
next
  case (Alt r1 r2)
  from Alt.prems have "(st', cs') \<in> set (rmatch r1 ci st cs) \<or> (st', cs') \<in> set (rmatch r2 ci st cs)"
    by simp
  then show ?case
  proof
    assume "(st', cs') \<in> set (rmatch r1 ci st cs)"
    from Alt.IH(1)[OF this] show ?thesis by (simp only: mand.simps) blast
  next
    assume "(st', cs') \<in> set (rmatch r2 ci st cs)"
    from Alt.IH(2)[OF this] show ?thesis by (simp only: mand.simps) blast
  qed
next
  case (Quant g mn mx r)
  have f: "\<And>st cs st' cs'. (st', cs') \<in> set (rmatch r ci st cs) \<Longrightarrow>
             cdom cs \<union> mand r \<subseteq> cdom cs'"
    using Quant.IH by blast
  from Quant.prems have mem: "(st', cs') \<in> set (quant g mn mx (rmatch r ci) st cs)" by simp
  have "cdom cs \<subseteq> cdom cs' \<and> (0 < mn \<and> mx \<noteq> Some 0 \<longrightarrow> mand r \<subseteq> cdom cs')"
    by (rule quant_caps_aux(1)[where f = "rmatch r ci" and M = "mand r", OF f mem])
  then show ?case
    by (simp only: mand.simps split: if_splits) blast
next
  case (Group n r)
  from Group.prems
  have "\<exists>x \<in> set (rmatch r ci (fst st, st_rest st, []) cs). \<exists>v. cs' = (n, v) # snd x"
    using set_group_caps by simp
  then obtain st1 cs1 v
    where a: "(st1, cs1) \<in> set (rmatch r ci (fst st, st_rest st, []) cs)"
    and b: "cs' = (n, v) # cs1"
    by force
  from Group.IH[OF a] b show ?case by (simp only: mand.simps) auto
next
  case Bol
  then show ?case by (auto split: if_splits)
next
  case Eol
  then show ?case by (auto split: if_splits)
next
  case WordB
  then show ?case by (auto split: if_splits)
qed

lemma search_from_caps:
  "search_from r ci pre prev s = Some m \<Longrightarrow> mand r \<subseteq> cdom (m_caps m)"
proof (induction r ci pre prev s rule: search_from.induct)
  case (1 r ci pre prev)
  then obtain st' cs rest where a: "rmatch r ci (prev, [], []) [] = (st', cs) # rest"
    and b: "m_caps m = cs"
    by (auto split: list.splits)
  have "(st', cs) \<in> set (rmatch r ci (prev, [], []) [])" using a by simp
  from rmatch_caps[OF this] b show ?case by simp
next
  case (2 r ci pre prev c s)
  show ?case
  proof (cases "rmatch r ci (prev, c # s, []) []")
    case Nil
    with 2 show ?thesis by simp
  next
    case (Cons x rest)
    obtain st' cs where x: "x = (st', cs)" by (cases x)
    with Cons "2.prems" have b: "m_caps m = cs" by auto
    have "(st', cs) \<in> set (rmatch r ci (prev, c # s, []) [])" using Cons x by simp
    from rmatch_caps[OF this] b show ?thesis by simp
  qed
qed

lemma grp_mand:
  assumes "rexec r ci s = Some m" and "n \<in> mand r"
  shows "\<exists>v. grp m n = Some v"
proof -
  from assms have "n \<in> cdom (m_caps m)"
    using search_from_caps unfolding rexec_def by blast
  then have "map_of (m_caps m) n \<noteq> None"
    by (simp add: map_of_eq_None_iff cdom_def)
  then show ?thesis by (auto simp: grp_def)
qed

lemma set_add_distinct: "distinct xs \<Longrightarrow> distinct (set_add xs x)"
  by (simp add: set_add_def)

lemma foldM_inv:
  assumes "P s" and "\<And>s x s'. P s \<Longrightarrow> f s x = Some s' \<Longrightarrow> P s'"
    and "foldM f s xs = Some t"
  shows "P t"
  using assms by (induction xs arbitrary: s) (auto split: option.splits)

lemma foldM_total:
  assumes "\<And>s x. \<exists>s'. f s x = Some s'"
  shows "\<exists>t. foldM f s xs = Some t"
proof (induction xs arbitrary: s)
  case Nil
  show ?case by simp
next
  case (Cons x xs)
  from assms obtain s' where "f s x = Some s'" by blast
  with Cons show ?case by simp
qed

section \<open>Error-name harvesting: results\<close>

lemma parseErrorTypes_line_total: "\<exists>e. parseErrorTypes_line errors line = Some e"
proof -
  have r: "\<And>m. rexec raiseRe False line = Some m \<Longrightarrow> \<exists>v. grp m 1 = Some v"
    by (erule grp_mand) (simp add: raiseRe_def)
  have x: "\<And>m. rexec exceptRe False line = Some m \<Longrightarrow> \<exists>v. grp m 1 = Some v"
    by (erule grp_mand) (simp add: exceptRe_def)
  show ?thesis
    unfolding parseErrorTypes_line_def
    using r x by (fastforce split: option.splits)
qed

lemma parseJsErrors_line_total: "\<exists>e. parseJsErrors_line errs l = Some e"
proof -
  have r: "\<And>m. rexec throwRe False l = Some m \<Longrightarrow> \<exists>v. grp m 1 = Some v"
    by (erule grp_mand) (simp add: throwRe_def)
  show ?thesis
    unfolding parseJsErrors_line_def
    using r by (fastforce simp: truthy_def split: option.splits)
qed

lemma parsePhpErrors_line_total: "\<exists>e. parsePhpErrors_line errs l = Some e"
proof -
  have r: "\<And>m. rexec throwRe False l = Some m \<Longrightarrow> \<exists>v. grp m 1 = Some v"
    by (erule grp_mand) (simp add: throwRe_def)
  have x: "\<And>m. rexec phpCatchRe False l = Some m \<Longrightarrow> \<exists>v. grp m 1 = Some v"
    by (erule grp_mand) (simp add: phpCatchRe_def)
  show ?thesis
    unfolding parsePhpErrors_line_def
    using r x by (fastforce split: option.splits)
qed

lemma parseErrorTypes_line_distinct:
  "distinct errors \<Longrightarrow> parseErrorTypes_line errors line = Some e \<Longrightarrow> distinct e"
  unfolding parseErrorTypes_line_def
  by (auto simp: set_add_distinct split: option.splits bind_splits if_splits)

lemma parseJsErrors_line_distinct:
  "distinct errs \<Longrightarrow> parseJsErrors_line errs l = Some e \<Longrightarrow> distinct e"
  unfolding parseJsErrors_line_def
  by (auto simp: set_add_distinct split: option.splits bind_splits if_splits)

lemma parsePhpErrors_line_distinct:
  "distinct errs \<Longrightarrow> parsePhpErrors_line errs l = Some e \<Longrightarrow> distinct e"
  unfolding parsePhpErrors_line_def
  by (auto simp: set_add_distinct split: option.splits bind_splits if_splits)

lemma parseErrorTypes_total: "\<exists>e. parseErrorTypes lines = Some e"
  unfolding parseErrorTypes_def by (rule foldM_total) (rule parseErrorTypes_line_total)

lemma parseJsErrors_total: "\<exists>e. parseJsErrors lines = Some e"
  unfolding parseJsErrors_def by (rule foldM_total) (rule parseJsErrors_line_total)

lemma parsePhpErrors_total: "\<exists>e. parsePhpErrors lines = Some e"
  unfolding parsePhpErrors_def by (rule foldM_total) (rule parsePhpErrors_line_total)

lemma parseErrorTypes_distinct: "parseErrorTypes lines = Some e \<Longrightarrow> distinct e"
  unfolding parseErrorTypes_def
  by (rule foldM_inv[where P = distinct and f = parseErrorTypes_line and s = "[]"])
     (simp_all add: parseErrorTypes_line_distinct)

lemma parseJsErrors_distinct: "parseJsErrors lines = Some e \<Longrightarrow> distinct e"
  unfolding parseJsErrors_def
  by (rule foldM_inv[where P = distinct and f = parseJsErrors_line and s = "[]"])
     (simp_all add: parseJsErrors_line_distinct)

lemma parsePhpErrors_distinct: "parsePhpErrors lines = Some e \<Longrightarrow> distinct e"
  unfolding parsePhpErrors_def
  by (rule foldM_inv[where P = distinct and f = parsePhpErrors_line and s = "[]"])
     (simp_all add: parsePhpErrors_line_distinct)

text \<open>
  C10. Every extractor that harvests error names returns them without duplicates: the
  harvest of the indentation-based extractor, of the brace-based extractor and of the
  namespace-import extractor each ends with a list, and no name occurs twice in it.
\<close>

theorem errorTypes_no_duplicates:
  "(\<exists>e. parseErrorTypes lines = Some e \<and> distinct e) \<and>
   (\<exists>e. parseJsErrors lines = Some e \<and> distinct e) \<and>
   (\<exists>e. parsePhpErrors lines = Some e \<and> distinct e)"
  using parseErrorTypes_total[of lines] parseJsErrors_total[of lines] parsePhpErrors_total[of lines]
        parseErrorTypes_distinct[of lines] parseJsErrors_distinct[of lines]
        parsePhpErrors_distinct[of lines]
  by blast

lemma parseErrorTypes_line_generic:
  assumes "''Exception'' \<notin> set errors"
    and "\<not> raisesGeneric line"
    and "parseErrorTypes_line errors line = Some e"
  shows "''Exception'' \<notin> set e"
  using assms unfolding parseErrorTypes_line_def raisesGeneric_def
  by (auto simp: set_add_def split: option.splits bind_splits if_splits)

lemma parseErrorTypes_generic_aux:
  assumes "\<forall>line \<in> set lines. \<not> raisesGeneric line"
    and "''Exception'' \<notin> set errors"
    and "foldM parseErrorTypes_line errors lines = Some errs"
  shows "''Exception'' \<notin> set errs"
  using assms
proof (induction lines arbitrary: errors)
  case Nil
  then show ?case by simp
next
  case (Cons l ls)
  from Cons.prems(3) obtain e1 where a: "parseErrorTypes_line errors l = Some e1"
    and b: "foldM parseErrorTypes_line e1 ls = Some errs"
    by (auto split: option.splits)
  have "''Exception'' \<notin> set e1"
    using parseErrorTypes_line_generic[OF Cons.prems(2) _ a] Cons.prems(1) by simp
  with Cons.IH[of e1] Cons.prems(1) b show ?case by simp
qed

text \<open>
  C6 fails as stated: a \<^verbatim>\<open>raise\<close> that names \<^verbatim>\<open>Exception\<close> registers it, and the
  brace-based harvest registers \<^verbatim>\<open>Error\<close> from a \<^verbatim>\<open>throw new\<close>.
\<close>

theorem errorTypes_generic_counterexample:
  "parseErrorTypes [''def f():'', ''    raise Exception''] = Some [''Exception''] \<and>
   parseJsErrors [''throw new Error(1)''] = Some [''Error'']"
  by code_simp

text \<open>
  C6, amended. In the indentation-based extractor the except harvest leaves
  \<^verbatim>\<open>Exception\<close> out: when no line's \<^verbatim>\<open>raise\<close> match names \<^verbatim>\<open>Exception\<close>, the
  harvested list does not contain it.
\<close>

theorem except_harvest_excludes_generic:
  assumes "\<forall>line \<in> set lines. \<not> raisesGeneric line"
    and "parseErrorTypes lines = Some errs"
  shows "''Exception'' \<notin> set errs"
  using parseErrorTypes_generic_aux[OF assms(1) _ assms(2)[unfolded parseErrorTypes_def]]
  by simp

theorem except_harvest_excludes_generic_witness:
  "parseErrorTypes [''try:'', ''except Exception:'', ''except ValueError as e:'']
     = Some [''ValueError''] \<and>
   ''Exception'' \<notin> set [''ValueError'']"
proof -
  let ?L = "[''try:'', ''except Exception:'', ''except ValueError as e:'']"
  have h1: "\<forall>line \<in> set ?L. \<not> raisesGeneric line"
    by code_simp
  have h2: "parseErrorTypes ?L = Some [''ValueError'']"
    by code_simp
  from except_harvest_excludes_generic[OF h1 h2] h2 show ?thesis by simp
qed

section \<open>Dependency resolver: results\<close>

lemma depIssueOf_unknown:
  assumes "installed = None \<or> installed = Some []"
    and "d \<in> set (depIssueOf installed language imp)"
  shows "dep_status d = Unknown \<and> dep_name d \<noteq> [] \<and>
         dep_installCmd d = installCmdFor language Unknown (dep_name d)"
proof (cases "normalizeDep (imp_module imp) language")
  case None
  with assms(2) show ?thesis by (simp add: depIssueOf_def)
next
  case (Some depName)
  show ?thesis
  proof (cases "depName = []")
    case True
    with Some assms(2) show ?thesis by (simp add: depIssueOf_def)
  next
    case False
    from assms(1) show ?thesis
    proof
      assume "installed = None"
      with Some False assms(2) show ?thesis by (simp add: depIssueOf_def)
    next
      assume "installed = Some []"
      with Some False assms(2) show ?thesis by (simp add: depIssueOf_def)
    qed
  qed
qed

text \<open>
  C4 fails as stated: with no manifest and no verification signal the issue is
  \<open>Unknown\<close>, and it carries the install command of the language.
\<close>

theorem unknown_dependency_hint_counterexample:
  "checkDependencies
     [\<lparr>imp_module = ''requests'', imp_names = [''requests''], imp_isFrom = False,
       imp_lineNumber = 3\<rparr>] None ''python''
   = [\<lparr>dep_name = ''requests'', dep_status = Unknown, dep_lineNumber = 3,
        dep_installCmd = ''pip install requests''\<rparr>]"
  by code_simp

text \<open>
  C4, amended. For every import the resolver reports when no manifest or verification
  signal is available (\<^verbatim>\<open>getInstalledPackages\<close> gave \<^verbatim>\<open>null\<close> or an empty set), the
  issue has status \<open>Unknown\<close> and carries the install command of the language:
  \<^verbatim>\<open>pip install\<close>, \<^verbatim>\<open>npm install\<close> or \<^verbatim>\<open>composer require\<close> followed by the package
  name, and the empty string for any other language.
\<close>

theorem unknown_dependency_hint:
  assumes "installed = None \<or> installed = Some []"
    and "d \<in> set (checkDependencies imports installed language)"
  shows "dep_status d = Unknown \<and>
         dep_installCmd d =
           (if language = ''python'' then ''pip install '' @ dep_name d
            else if isJsLike language then ''npm install '' @ dep_name d
            else if language = ''php'' then ''composer require '' @ dep_name d
            else [])"
proof -
  from assms(2) obtain imp where "d \<in> set (depIssueOf installed language imp)"
    by (auto simp: checkDependencies_def Let_def split: if_splits)
  from depIssueOf_unknown[OF assms(1) this] show ?thesis
    by (simp add: installCmdFor_def)
qed

theorem unknown_dependency_hint_witness:
  "checkDependencies
     [\<lparr>imp_module = ''express/lib/router'', imp_names = [''Router''], imp_isFrom = True,
       imp_lineNumber = 1\<rparr>] (Some []) ''typescriptreact'' \<noteq> [] \<and>
   list_all (\<lambda>d. dep_status d = Unknown \<and> dep_installCmd d = ''npm install '' @ dep_name d)
     (checkDependencies
        [\<lparr>imp_module = ''express/lib/router'', imp_names = [''Router''], imp_isFrom = True,
          imp_lineNumber = 1\<rparr>] (Some []) ''typescriptreact'')"
proof -
  let ?d = "\<lparr>dep_name = ''express'', dep_status = Unknown, dep_lineNumber = 1,
     dep_installCmd = ''npm install express''\<rparr>"
  let ?imps = "[\<lparr>imp_module = ''express/lib/router'', imp_names = [''Router''], imp_isFrom = True,
           imp_lineNumber = 1\<rparr>]"
  have h1: "Some [] = None \<or> Some [] = Some ([] :: string list)" by simp
  have h2: "?d \<in> set (checkDependencies ?imps (Some []) ''typescriptreact'')"
    by code_simp
  have js: "isJsLike ''typescriptreact''" by code_simp
  have ne: "checkDependencies ?imps (Some []) ''typescriptreact'' \<noteq> []"
    using h2 by auto
  have "\<And>d. d \<in> set (checkDependencies ?imps (Some []) ''typescriptreact'') \<Longrightarrow>
          dep_status d = Unknown \<and> dep_installCmd d = ''npm install '' @ dep_name d"
    using unknown_dependency_hint[OF h1, of _ ?imps "''typescriptreact''"] js by simp
  then show ?thesis using ne by (simp add: list_all_iff)
qed

section \<open>Loops over the lines\<close>

lemma forLines_total:
  assumes "\<And>i l. \<exists>xs. f i l = Some xs"
  shows "\<exists>ys. forLines f k ls = Some ys"
proof (induction ls arbitrary: k)
  case Nil
  show ?case by simp
next
  case (Cons l ls)
  from assms obtain xs where "f k l = Some xs" by blast
  moreover from Cons obtain ys where "forLines f (Suc k) ls = Some ys" by blast
  ultimately show ?case by simp
qed

lemma forLines_Cons:
  "forLines f k (l # ls) = Some ys \<longleftrightarrow>
     (\<exists>xs zs. f k l = Some xs \<and> forLines f (Suc k) ls = Some zs \<and> ys = xs @ zs)"
  by (auto split: bind_splits)

lemma forLines_all:
  assumes "\<And>i l xs x. f i l = Some xs \<Longrightarrow> x \<in> set xs \<Longrightarrow> P x"
    and "forLines f k ls = Some ys" and "y \<in> set ys"
  shows "P y"
  using assms(2,3)
proof (induction ls arbitrary: k ys)
  case Nil
  then show ?case by simp
next
  case (Cons l ls)
  from Cons.prems(1) obtain xs zs where a: "f k l = Some xs"
    and b: "forLines f (Suc k) ls = Some zs" and c: "ys = xs @ zs"
    unfolding forLines_Cons by blast
  from Cons.prems(2) c have "y \<in> set xs \<or> y \<in> set zs" by simp
  then show ?case
  proof
    assume "y \<in> set xs"
    with assms(1)[OF a] show ?thesis .
  next
    assume "y \<in> set zs"
    with Cons.IH[OF b] show ?thesis .
  qed
qed

lemma forLines_range:
  assumes "\<And>i l xs x. f i l = Some xs \<Longrightarrow> x \<in> set xs \<Longrightarrow> ln x = Suc i"
    and "forLines f k ls = Some ys" and "y \<in> set ys"
  shows "k < ln y \<and> ln y \<le> k + length ls"
  using assms(2,3)
proof (induction ls arbitrary: k ys)
  case Nil
  then show ?case by simp
next
  case (Cons l ls)
  from Cons.prems(1) obtain xs zs where a: "f k l = Some xs"
    and b: "forLines f (Suc k) ls = Some zs" and c: "ys = xs @ zs"
    unfolding forLines_Cons by blast
  from Cons.prems(2) c have "y \<in> set xs \<or> y \<in> set zs" by simp
  then show ?case
  proof
    assume "y \<in> set xs"
    with assms(1)[OF a] have "ln y = Suc k" .
    then show ?thesis by simp
  next
    assume "y \<in> set zs"
    with Cons.IH[OF b] have "Suc k < ln y \<and> ln y \<le> Suc k + length ls" .
    then show ?thesis by simp
  qed
qed

lemma forLines_filter:
  assumes tag: "\<And>i l xs x. f i l = Some xs \<Longrightarrow> x \<in> set xs \<Longrightarrow> ln x = Suc i"
    and "forLines f k ls = Some ys" and "j < length ls" and "f (k + j) (ls ! j) = Some xs"
  shows "filter (\<lambda>y. ln y = Suc (k + j)) ys = xs"
  using assms(2,3,4)
proof (induction ls arbitrary: k ys j)
  case Nil
  then show ?case by simp
next
  case (Cons l ls)
  from Cons.prems(1) obtain hs zs where a: "f k l = Some hs"
    and b: "forLines f (Suc k) ls = Some zs" and c: "ys = hs @ zs"
    unfolding forLines_Cons by blast
  have later: "\<And>z. z \<in> set zs \<Longrightarrow> Suc k < ln z"
  proof -
    fix z assume z: "z \<in> set zs"
    have "Suc k < ln z \<and> ln z \<le> Suc k + length ls"
      by (rule forLines_range[where f = f and ln = ln, OF tag b z])
    then show "Suc k < ln z" by simp
  qed
  show ?case
  proof (cases j)
    case 0
    with Cons.prems(3) a have hx: "hs = xs" by simp
    have "filter (\<lambda>y. ln y = Suc k) hs = hs"
      using tag[OF a] by (simp add: filter_id_conv)
    moreover have "filter (\<lambda>y. ln y = Suc k) zs = []"
      using later by (fastforce simp: filter_empty_conv)
    ultimately show ?thesis using c hx 0 by simp
  next
    case (Suc j')
    with Cons.prems(2) have j': "j' < length ls" by simp
    from Cons.prems(3) Suc have fx: "f (Suc k + j') (ls ! j') = Some xs" by simp
    have "filter (\<lambda>y. ln y = Suc (Suc k + j')) hs = []"
      using tag[OF a] by (fastforce simp: filter_empty_conv)
    moreover have "filter (\<lambda>y. ln y = Suc (Suc k + j')) zs = xs"
      by (rule Cons.IH[OF b j' fx])
    ultimately show ?thesis using c Suc by simp
  qed
qed

lemma rsplit_from_not_Nil: "rsplit_from r ci cur prev s \<noteq> []"
proof (induction r ci cur prev s rule: rsplit_from.induct)
  case (1 r ci cur prev)
  show ?case by simp
next
  case (2 r ci cur prev c s)
  show ?case
  proof (cases "rmatch r ci (prev, c # s, []) []")
    case Nil
    with "2.IH"(1) show ?thesis by (simp add: rsplit_from.simps(2))
  next
    case (Cons x xs)
    obtain st' cs where x: "x = (st', cs)" by (cases x)
    show ?thesis
    proof (cases "length (st_rest st') < length (c # s)")
      case True
      with Cons x show ?thesis by (simp add: rsplit_from.simps(2))
    next
      case False
      show ?thesis
      proof (cases "cur = []")
        case True
        from "2.IH"(3)[OF Cons x[symmetric] False True] Cons x False True
        show ?thesis by (simp add: rsplit_from.simps(2))
      next
        case ne: False
        with Cons x False show ?thesis by (simp add: rsplit_from.simps(2))
      qed
    qed
  qed
qed

lemma first_rsplit:
  assumes "s \<noteq> []"
  shows "\<exists>x. first (rsplit r ci s) = Some x"
  using assms rsplit_from_not_Nil[of r ci "[]" None s]
  by (cases "rsplit_from r ci [] None s") (auto simp: rsplit_def first_def)


lemma rsplit_empty_total:
  "\<exists>x. first (rsplit r ci s) = Some x \<or> (s = [] \<and> rmatch r ci (None, [], []) [] \<noteq> [])"
proof (cases "s = []")
  case True
  then show ?thesis
    by (cases "rmatch r ci (None, [], []) []") (simp_all add: rsplit_def first_def)
next
  case False
  from first_rsplit[OF this] show ?thesis by blast
qed

lemma forLines_total_idx:
  assumes "\<And>j. j < length ls \<Longrightarrow> \<exists>xs. f (k + j) (ls ! j) = Some xs"
  shows "\<exists>ys. forLines f k ls = Some ys"
  using assms
proof (induction ls arbitrary: k)
  case Nil
  show ?case by simp
next
  case (Cons l ls)
  from Cons.prems[of 0] obtain xs where a: "f k l = Some xs" by auto
  have "\<And>j. j < length ls \<Longrightarrow> \<exists>xs. f (Suc k + j) (ls ! j) = Some xs"
  proof -
    fix j assume "j < length ls"
    then have "Suc j < length (l # ls)" by simp
    from Cons.prems[OF this] show "\<exists>xs. f (Suc k + j) (ls ! j) = Some xs" by simp
  qed
  from Cons.IH[OF this] obtain ys where "forLines f (Suc k) ls = Some ys" by blast
  with a show ?case by simp
qed

lemma loopLines_total_idx:
  assumes "\<And>j. j < length ls \<Longrightarrow> \<exists>r. f (k + j) (ls ! j) = Some r"
  shows "\<exists>ys. loopLines f k ls = Some ys"
  using assms
proof (induction ls arbitrary: k)
  case Nil
  show ?case by simp
next
  case (Cons l ls)
  from Cons.prems[of 0] obtain r where a: "f k l = Some r" by auto
  have "\<And>j. j < length ls \<Longrightarrow> \<exists>r. f (Suc k + j) (ls ! j) = Some r"
  proof -
    fix j assume "j < length ls"
    then have "Suc j < length (l # ls)" by simp
    from Cons.prems[OF this] show "\<exists>r. f (Suc k + j) (ls ! j) = Some r" by simp
  qed
  from Cons.IH[OF this] obtain ys where "loopLines f (Suc k) ls = Some ys" by blast
  with a show ?case by (cases r) simp_all
qed

lemma foldLines_total:
  assumes "\<And>s i l. \<exists>r. f s i l = Some r"
  shows "\<exists>t. foldLines f s k ls = Some t"
proof (induction ls arbitrary: s k)
  case Nil
  show ?case by simp
next
  case (Cons l ls)
  from assms obtain r where a: "f s k l = Some r" by blast
  show ?case
  proof (cases r)
    case Stop
    with a show ?thesis by simp
  next
    case (Go s')
    from Cons[of s' "Suc k"] obtain t where "foldLines f s' (Suc k) ls = Some t" by blast
    with a Go show ?thesis by simp
  qed
qed

lemma loopLines_range:
  assumes "\<And>i l xs x. f i l = Some (Push xs) \<Longrightarrow> x \<in> set xs \<Longrightarrow> ln x = Suc i"
    and "loopLines f k ls = Some ys" and "y \<in> set ys"
  shows "k < ln y \<and> ln y \<le> k + length ls"
  using assms(2,3)
proof (induction ls arbitrary: k ys)
  case Nil
  then show ?case by simp
next
  case (Cons l ls)
  show ?case
  proof (cases "f k l")
    case None
    with Cons.prems(1) show ?thesis by simp
  next
    case (Some r)
    show ?thesis
    proof (cases r)
      case Break
      with Some Cons.prems show ?thesis by simp
    next
      case (Push xs)
      with Some Cons.prems(1) obtain zs where b: "loopLines f (Suc k) ls = Some zs"
        and c: "ys = xs @ zs"
        by (auto split: option.splits)
      from Cons.prems(2) c have "y \<in> set xs \<or> y \<in> set zs" by simp
      then show ?thesis
      proof
        assume "y \<in> set xs"
        with assms(1)[of k l xs y] Some Push have "ln y = Suc k" by simp
        then show ?thesis by simp
      next
        assume "y \<in> set zs"
        with Cons.IH[OF b] have "Suc k < ln y \<and> ln y \<le> Suc k + length ls" .
        then show ?thesis by simp
      qed
    qed
  qed
qed

lemma mapM_total:
  assumes "\<And>x. \<exists>y. f x = Some y"
  shows "\<exists>ys. mapM f xs = Some ys"
proof (induction xs)
  case Nil
  show ?case by simp
next
  case (Cons x xs)
  from assms obtain y where "f x = Some y" by blast
  moreover from Cons obtain ys where "mapM f xs = Some ys" by blast
  ultimately show ?case by simp
qed

section \<open>Hardcoded-value detection: results\<close>

lemma py_portVal_grp: "rexec py_portValRe False line = Some m \<Longrightarrow> \<exists>v. grp m 1 = Some v"
  by (erule grp_mand) (simp add: py_portValRe_def)

lemma py_assignStr_grp1: "rexec py_assignStrRe False t = Some m \<Longrightarrow> \<exists>v. grp m 1 = Some v"
  by (erule grp_mand) (simp add: py_assignStrRe_def)

lemma py_assignStr_grp2: "rexec py_assignStrRe False t = Some m \<Longrightarrow> \<exists>v. grp m 2 = Some v"
  by (erule grp_mand) (simp add: py_assignStrRe_def)

lemma sh_portVal_grp: "rexec sh_portValRe False line = Some m \<Longrightarrow> \<exists>v. grp m 1 = Some v"
  by (erule grp_mand) (simp add: sh_portValRe_def)

lemma py_portRule_total: "\<exists>ps. py_portRule i line = Some ps"
  using py_portVal_grp[of line]
  by (cases "rexec py_portValRe False line") (auto simp: py_portRule_def)

lemma py_stringRule_total: "\<exists>ss. py_stringRule i t = Some ss"
proof (cases "rexec py_assignStrRe False t")
  case None
  then show ?thesis by (simp add: py_stringRule_def)
next
  case (Some m)
  from py_assignStr_grp1[OF Some] obtain v where "grp m 1 = Some v" by blast
  with Some show ?thesis by (simp add: py_stringRule_def)
qed

lemma sh_portRule_total: "\<exists>ps. sh_portRule i line = Some ps"
  using sh_portVal_grp[of line]
  by (cases "rexec sh_portValRe False line") (auto simp: sh_portRule_def)

lemma detectHardcodedValues_line_total: "\<exists>hs. detectHardcodedValues_line i line = Some hs"
proof -
  obtain ps where ps: "py_portRule i line = Some ps" using py_portRule_total by blast
  obtain ss where ss: "py_stringRule i (trim line) = Some ss" using py_stringRule_total by blast
  show ?thesis
    by (cases "rexec py_credRe True line") (simp_all add: detectHardcodedValues_line_def Let_def ps ss)
qed

lemma detectHardcoded_line_total: "\<exists>hs. detectHardcoded_line commentPrefix i line = Some hs"
proof (cases "sh_hardcodedSkips commentPrefix (trim line)")
  case True
  then show ?thesis by (simp add: detectHardcoded_line_def Let_def)
next
  case False
  then have "trim line \<noteq> []" by (auto simp: sh_hardcodedSkips_def)
  from first_rsplit[OF this] obtain piece where p: "first (rsplit colonEqRe False (trim line)) = Some piece"
    by blast
  obtain ps where ps: "sh_portRule i line = Some ps" using sh_portRule_total by blast
  show ?thesis
    by (cases "rexec sh_credRe True line") (simp_all add: detectHardcoded_line_def Let_def False p ps)
qed

lemma detectHardcodedValues_total: "\<exists>hs. detectHardcodedValues lines = Some hs"
  unfolding detectHardcodedValues_def
  by (rule forLines_total) (rule detectHardcodedValues_line_total)

lemma detectHardcoded_total: "\<exists>hs. detectHardcoded lines commentPrefix = Some hs"
  unfolding detectHardcoded_def
  by (rule forLines_total) (rule detectHardcoded_line_total)

lemma py_portRule_tag:
  "py_portRule i line = Some ps \<Longrightarrow> h \<in> set ps \<Longrightarrow> hv_lineNumber h = Suc i"
  by (auto simp: py_portRule_def split: if_splits option.splits bind_splits)

lemma py_stringRule_tag:
  "py_stringRule i t = Some ss \<Longrightarrow> h \<in> set ss \<Longrightarrow> hv_lineNumber h = Suc i"
  by (auto simp: py_stringRule_def split: if_splits option.splits bind_splits)

lemma py_stringRule_empty: "py_stringRule i t = Some ss \<Longrightarrow> ss = []"
  by (auto simp: py_stringRule_def split: if_splits option.splits bind_splits)

lemma sh_portRule_tag:
  "sh_portRule i line = Some ps \<Longrightarrow> h \<in> set ps \<Longrightarrow> hv_lineNumber h = Suc i"
  by (auto simp: sh_portRule_def split: if_splits option.splits bind_splits)

lemma sh_portRule_kind:
  "sh_portRule i line = Some ps \<Longrightarrow> h \<in> set ps \<Longrightarrow> hv_type h = KNumber"
  by (auto simp: sh_portRule_def split: if_splits option.splits bind_splits)

lemma detectHardcodedValues_line_tag:
  assumes "detectHardcodedValues_line i line = Some hs" and "h \<in> set hs"
  shows "hv_lineNumber h = Suc i"
proof (cases "py_hardcodedSkips (trim line)")
  case True
  with assms show ?thesis by (simp add: detectHardcodedValues_line_def Let_def)
next
  case False
  show ?thesis
  proof (cases "rexec py_credRe True line")
    case (Some m)
    with False assms show ?thesis by (auto simp: detectHardcodedValues_line_def Let_def)
  next
    case None
    with False assms(1) obtain ps ss where ps: "py_portRule i line = Some ps"
      and ss: "py_stringRule i (trim line) = Some ss"
      and hs: "hs = py_urlRule i line (trim line) @ py_ipRule i line (trim line) @
                    py_pathRule i line (trim line) @ ps @ ss"
      by (auto simp: detectHardcodedValues_line_def Let_def split: bind_splits)
    from assms(2) hs have "h \<in> set (py_urlRule i line (trim line)) \<or>
        h \<in> set (py_ipRule i line (trim line)) \<or> h \<in> set (py_pathRule i line (trim line)) \<or>
        h \<in> set ps \<or> h \<in> set ss"
      by simp
    then show ?thesis
      using py_portRule_tag[OF ps] py_stringRule_tag[OF ss]
      by (auto simp: py_urlRule_def py_ipRule_def py_pathRule_def split: option.splits if_splits)
  qed
qed

lemma detectHardcoded_line_cases:
  assumes "detectHardcoded_line commentPrefix i line = Some hs" and "h \<in> set hs"
  shows "hv_lineNumber h = Suc i \<and>
         (hv_type h = KCredential \<or> hv_type h = KUrl \<or> hv_type h = KIp \<or> hv_type h = KNumber)"
proof (cases "sh_hardcodedSkips commentPrefix (trim line)")
  case True
  with assms show ?thesis by (simp add: detectHardcoded_line_def Let_def)
next
  case False
  with assms(1) obtain piece where p: "first (rsplit colonEqRe False (trim line)) = Some piece"
    by (auto simp: detectHardcoded_line_def Let_def split: bind_splits)
  show ?thesis
  proof (cases "rexec sh_credRe True line")
    case (Some m)
    with False p assms show ?thesis by (auto simp: detectHardcoded_line_def Let_def)
  next
    case None
    with False p assms(1) obtain ps where ps: "sh_portRule i line = Some ps"
      and hs: "hs = sh_urlRule i line (take 30 (trim piece)) @
                    sh_ipRule i line (take 30 (trim piece)) @ ps"
      by (auto simp: detectHardcoded_line_def Let_def split: bind_splits)
    from assms(2) hs have "h \<in> set (sh_urlRule i line (take 30 (trim piece))) \<or>
        h \<in> set (sh_ipRule i line (take 30 (trim piece))) \<or> h \<in> set ps"
      by simp
    then show ?thesis
      using sh_portRule_tag[OF ps] sh_portRule_kind[OF ps]
      by (auto simp: sh_urlRule_def sh_ipRule_def split: option.splits if_splits)
  qed
qed

lemma detectHardcodedValues_filter:
  assumes "detectHardcodedValues lines = Some hs" and "i < length lines"
    and "detectHardcodedValues_line i (lines ! i) = Some xs"
  shows "filter (\<lambda>h. hv_lineNumber h = Suc i) hs = xs"
  using forLines_filter[where f = detectHardcodedValues_line and ln = hv_lineNumber
      and k = 0 and ls = lines and ys = hs and j = i and xs = xs]
    detectHardcodedValues_line_tag assms
  unfolding detectHardcodedValues_def by simp

lemma detectHardcoded_filter:
  assumes "detectHardcoded lines commentPrefix = Some hs" and "i < length lines"
    and "detectHardcoded_line commentPrefix i (lines ! i) = Some xs"
  shows "filter (\<lambda>h. hv_lineNumber h = Suc i) hs = xs"
proof -
  have tag: "\<And>i l xs x. detectHardcoded_line commentPrefix i l = Some xs \<Longrightarrow> x \<in> set xs \<Longrightarrow>
               hv_lineNumber x = Suc i"
    using detectHardcoded_line_cases by blast
  show ?thesis
    using forLines_filter[where f = "detectHardcoded_line commentPrefix" and ln = hv_lineNumber
        and k = 0 and ls = lines and ys = hs and j = i and xs = xs, OF tag] assms
    unfolding detectHardcoded_def by simp
qed

text \<open>
  C3 fails as stated: the shared scanner passes over every line that contains
  \<^verbatim>\<open>---\<close>, so the line \<^verbatim>\<open>key = "a---b"\<close>, which is not blank, not a comment and not
  an import and which matches the credential pattern, yields no finding; and the
  scanner of the indentation-based extractor has no \<^verbatim>\<open>auth\<close> in its pattern, so
  \<^verbatim>\<open>auth = "Bearer-abc"\<close> yields no finding there.
\<close>

theorem credential_line_counterexample:
  "trim (''key = '' @ [dq] @ ''a---b'' @ [dq]) \<noteq> [] \<and>
   \<not> startsWith (trim (''key = '' @ [dq] @ ''a---b'' @ [dq])) ''//'' \<and>
   \<not> startsWith (trim (''key = '' @ [dq] @ ''a---b'' @ [dq])) ''#'' \<and>
   \<not> rtest sh_importRe False (trim (''key = '' @ [dq] @ ''a---b'' @ [dq])) \<and>
   rtest sh_credRe True (''key = '' @ [dq] @ ''a---b'' @ [dq]) \<and>
   detectHardcoded [''key = '' @ [dq] @ ''a---b'' @ [dq]] ''//'' = Some [] \<and>
   \<not> py_hardcodedSkips (trim (''auth = '' @ [dq] @ ''Bearer-abc'' @ [dq])) \<and>
   rtest sh_credRe True (''auth = '' @ [dq] @ ''Bearer-abc'' @ [dq]) \<and>
   detectHardcodedValues [''auth = '' @ [dq] @ ''Bearer-abc'' @ [dq]] = Some []"
  by code_simp

text \<open>
  C3, amended. For every line that a scanner does not pass over (its own tests: blank,
  comment prefix or \<^verbatim>\<open>#\<close>, import prefix, and for the shared scanner any line containing
  \<^verbatim>\<open>---\<close>) and that matches the scanner's own credential pattern, the scanner emits
  exactly one finding for that line: of kind credential, at the line's number, with the
  matched text as value. No finding of another kind is emitted for the line. The
  pattern of the shared scanner names \<^verbatim>\<open>auth\<close>; the other one does not.
\<close>

theorem credential_line_reported_once:
  assumes "i < length lines"
  shows "(\<not> py_hardcodedSkips (trim (lines ! i)) \<and> rexec py_credRe True (lines ! i) = Some m \<longrightarrow>
            (\<exists>hs. detectHardcodedValues lines = Some hs \<and>
               filter (\<lambda>h. hv_lineNumber h = i + 1) hs =
                 [\<lparr>hv_value = m_all m, hv_type = KCredential, hv_lineNumber = i + 1,
                   hv_context = trim (split0 CHR ''='' (trim (lines ! i)))\<rparr>])) \<and>
         (\<not> sh_hardcodedSkips commentPrefix (trim (lines ! i)) \<and>
          rexec sh_credRe True (lines ! i) = Some m' \<longrightarrow>
            (\<exists>hs piece. detectHardcoded lines commentPrefix = Some hs \<and>
               first (rsplit colonEqRe False (trim (lines ! i))) = Some piece \<and>
               filter (\<lambda>h. hv_lineNumber h = i + 1) hs =
                 [\<lparr>hv_value = m_all m', hv_type = KCredential, hv_lineNumber = i + 1,
                   hv_context = take 30 (trim piece)\<rparr>]))"
proof (intro conjI impI)
  assume a: "\<not> py_hardcodedSkips (trim (lines ! i)) \<and> rexec py_credRe True (lines ! i) = Some m"
  obtain hs where hs: "detectHardcodedValues lines = Some hs"
    using detectHardcodedValues_total by blast
  from a have "detectHardcodedValues_line i (lines ! i) =
      Some [\<lparr>hv_value = m_all m, hv_type = KCredential, hv_lineNumber = i + 1,
              hv_context = trim (split0 CHR ''='' (trim (lines ! i)))\<rparr>]"
    by (simp add: detectHardcodedValues_line_def Let_def)
  from detectHardcodedValues_filter[OF hs assms this] hs
  show "\<exists>hs. detectHardcodedValues lines = Some hs \<and>
               filter (\<lambda>h. hv_lineNumber h = i + 1) hs =
                 [\<lparr>hv_value = m_all m, hv_type = KCredential, hv_lineNumber = i + 1,
                   hv_context = trim (split0 CHR ''='' (trim (lines ! i)))\<rparr>]"
    by simp
next
  assume a: "\<not> sh_hardcodedSkips commentPrefix (trim (lines ! i)) \<and>
             rexec sh_credRe True (lines ! i) = Some m'"
  obtain hs where hs: "detectHardcoded lines commentPrefix = Some hs"
    using detectHardcoded_total by blast
  from a have "trim (lines ! i) \<noteq> []" by (auto simp: sh_hardcodedSkips_def)
  from first_rsplit[OF this] obtain piece
    where p: "first (rsplit colonEqRe False (trim (lines ! i))) = Some piece"
    by blast
  from a p have "detectHardcoded_line commentPrefix i (lines ! i) =
      Some [\<lparr>hv_value = m_all m', hv_type = KCredential, hv_lineNumber = i + 1,
              hv_context = take 30 (trim piece)\<rparr>]"
    by (simp add: detectHardcoded_line_def Let_def)
  from detectHardcoded_filter[OF hs assms this] hs p
  show "\<exists>hs piece. detectHardcoded lines commentPrefix = Some hs \<and>
               first (rsplit colonEqRe False (trim (lines ! i))) = Some piece \<and>
               filter (\<lambda>h. hv_lineNumber h = i + 1) hs =
                 [\<lparr>hv_value = m_all m', hv_type = KCredential, hv_lineNumber = i + 1,
                   hv_context = take 30 (trim piece)\<rparr>]"
    by simp
qed

text \<open>
  The scenario of the claim: \<^verbatim>\<open>password = "s3cr3t123"\<close> on line 5; and a line of the
  shared scanner with both a credential assignment and a URL.
\<close>

theorem credential_line_reported_once_witness:
  "(\<exists>hs. detectHardcodedValues [[], [], [], [], ''password = '' @ [dq] @ ''s3cr3t123'' @ [dq]]
            = Some hs \<and>
      filter (\<lambda>h. hv_lineNumber h = 5) hs =
        [\<lparr>hv_value = ''password = '' @ [dq] @ ''s3cr3t123'' @ [dq], hv_type = KCredential,
          hv_lineNumber = 5, hv_context = ''password''\<rparr>]) \<and>
   (\<exists>hs. detectHardcoded
            [''// config'',
             ''const api_key = '' @ [dq] @ ''https://example.com/k'' @ [dq] @ '';'']
            ''//'' = Some hs \<and>
      filter (\<lambda>h. hv_lineNumber h = 2) hs =
        [\<lparr>hv_value = ''api_key = '' @ [dq] @ ''https://example.com/k'' @ [dq],
          hv_type = KCredential, hv_lineNumber = 2, hv_context = ''const api_key''\<rparr>])"
proof -
  let ?P = "[[], [], [], [], ''password = '' @ [dq] @ ''s3cr3t123'' @ [dq]]"
  let ?m = "\<lparr>m_pre = [], m_all = ''password = '' @ [dq] @ ''s3cr3t123'' @ [dq], m_post = [],
             m_caps = []\<rparr>"
  let ?S = "[''// config'',
             ''const api_key = '' @ [dq] @ ''https://example.com/k'' @ [dq] @ '';'']"
  let ?m' = "\<lparr>m_pre = ''const '',
              m_all = ''api_key = '' @ [dq] @ ''https://example.com/k'' @ [dq],
              m_post = '';'', m_caps = []\<rparr>"
  have i: "4 < length ?P" by simp
  have p: "\<not> py_hardcodedSkips (trim (?P ! 4)) \<and> rexec py_credRe True (?P ! 4) = Some ?m"
    by code_simp
  have c: "trim (split0 CHR ''='' (trim (?P ! 4))) = ''password''"
    by code_simp
  have j: "1 < length ?S" by simp
  have s: "\<not> sh_hardcodedSkips ''//'' (trim (?S ! 1)) \<and> rexec sh_credRe True (?S ! 1) = Some ?m'"
    by code_simp
  have d: "first (rsplit colonEqRe False (trim (?S ! 1))) = Some ''const api_key ''"
    by code_simp
  have t: "take 30 (trim ''const api_key '') = ''const api_key''"
    by code_simp
  have n5: "(4::nat) + 1 = 5" and n2: "(1::nat) + 1 = 2" by simp_all
  from credential_line_reported_once[OF i, where m = ?m] p
  obtain hs where h1: "detectHardcodedValues ?P = Some hs"
    and h2: "filter (\<lambda>h. hv_lineNumber h = 4 + 1) hs =
        [\<lparr>hv_value = m_all ?m, hv_type = KCredential, hv_lineNumber = 4 + 1,
          hv_context = trim (split0 CHR ''='' (trim (?P ! 4)))\<rparr>]"
    by blast
  from h2 have "filter (\<lambda>h. hv_lineNumber h = 5) hs =
        [\<lparr>hv_value = ''password = '' @ [dq] @ ''s3cr3t123'' @ [dq], hv_type = KCredential,
          hv_lineNumber = 5, hv_context = ''password''\<rparr>]"
    unfolding c n5 by simp
  with h1 have first: "\<exists>hs. detectHardcodedValues ?P = Some hs \<and>
      filter (\<lambda>h. hv_lineNumber h = 5) hs =
        [\<lparr>hv_value = ''password = '' @ [dq] @ ''s3cr3t123'' @ [dq], hv_type = KCredential,
          hv_lineNumber = 5, hv_context = ''password''\<rparr>]"
    by blast
  from credential_line_reported_once[OF j, where m' = ?m' and commentPrefix = "''//''"] s
  obtain hs' piece where g1: "detectHardcoded ?S ''//'' = Some hs'"
    and g2: "first (rsplit colonEqRe False (trim (?S ! 1))) = Some piece"
    and g3: "filter (\<lambda>h. hv_lineNumber h = 1 + 1) hs' =
        [\<lparr>hv_value = m_all ?m', hv_type = KCredential, hv_lineNumber = 1 + 1,
          hv_context = take 30 (trim piece)\<rparr>]"
    by blast
  from g2 d have pc: "piece = ''const api_key ''" by simp
  from g3 have "filter (\<lambda>h. hv_lineNumber h = 2) hs' =
        [\<lparr>hv_value = ''api_key = '' @ [dq] @ ''https://example.com/k'' @ [dq],
          hv_type = KCredential, hv_lineNumber = 2, hv_context = ''const api_key''\<rparr>]"
    unfolding pc t n2 by simp
  with g1 have second: "\<exists>hs. detectHardcoded ?S ''//'' = Some hs \<and>
      filter (\<lambda>h. hv_lineNumber h = 2) hs =
        [\<lparr>hv_value = ''api_key = '' @ [dq] @ ''https://example.com/k'' @ [dq],
          hv_type = KCredential, hv_lineNumber = 2, hv_context = ''const api_key''\<rparr>]"
    by blast
  from first second show ?thesis by blast
qed

text \<open>
  C8 fails as stated: \<^verbatim>\<open>greeting = "hello world"\<close> is a plain assignment of a literal
  of eleven characters to a name that is not upper-case, no other rule matches it, and
  neither scanner reports a finding for it.
\<close>

theorem string_finding_counterexample:
  "rtest py_assignStrRe False (trim (''greeting = '' @ [dq] @ ''hello world'' @ [dq])) \<and>
   \<not> rtest upperNameRe False ''greeting'' \<and>
   \<not> sh_hardcodedSkips ''//'' (trim (''greeting = '' @ [dq] @ ''hello world'' @ [dq])) \<and>
   \<not> py_hardcodedSkips (trim (''greeting = '' @ [dq] @ ''hello world'' @ [dq])) \<and>
   detectHardcoded [''greeting = '' @ [dq] @ ''hello world'' @ [dq]] ''//'' = Some [] \<and>
   detectHardcodedValues [''greeting = '' @ [dq] @ ''hello world'' @ [dq]] = Some []"
  by code_simp

text \<open>
  C8, amended. The shared scanner, the one the brace-based extractors use, has no rule
  for plain string assignments: for every input it ends with a list of findings, each of
  kind credential, url, ip or number, so none of kind string.
\<close>

theorem shared_scanner_kinds:
  "\<exists>hs. detectHardcoded lines commentPrefix = Some hs \<and>
     list_all (\<lambda>h. hv_type h = KCredential \<or> hv_type h = KUrl \<or> hv_type h = KIp \<or>
                    hv_type h = KNumber) hs \<and>
     list_all (\<lambda>h. hv_type h \<noteq> KString) hs"
proof -
  obtain hs where hs: "detectHardcoded lines commentPrefix = Some hs"
    using detectHardcoded_total by blast
  have k: "\<And>h. h \<in> set hs \<Longrightarrow>
       hv_type h = KCredential \<or> hv_type h = KUrl \<or> hv_type h = KIp \<or> hv_type h = KNumber"
  proof -
    fix h assume h: "h \<in> set hs"
    have step: "\<And>i l xs x. detectHardcoded_line commentPrefix i l = Some xs \<Longrightarrow> x \<in> set xs \<Longrightarrow>
        hv_type x = KCredential \<or> hv_type x = KUrl \<or> hv_type x = KIp \<or> hv_type x = KNumber"
      using detectHardcoded_line_cases by blast
    show "hv_type h = KCredential \<or> hv_type h = KUrl \<or> hv_type h = KIp \<or> hv_type h = KNumber"
      by (rule forLines_all[where f = "detectHardcoded_line commentPrefix" and k = 0
            and ls = lines and ys = hs, OF step hs[unfolded detectHardcoded_def] h])
  qed
  then have "list_all (\<lambda>h. hv_type h = KCredential \<or> hv_type h = KUrl \<or> hv_type h = KIp \<or>
                    hv_type h = KNumber) hs"
    by (simp add: list_all_iff)
  moreover have "list_all (\<lambda>h. hv_type h \<noteq> KString) hs"
    using k by (fastforce simp: list_all_iff)
  ultimately show ?thesis using hs by blast
qed

section \<open>Brace-depth body spans: results\<close>

lemma braceScan_append: "braceScan st (xs @ ys) = braceScan (braceScan st xs) ys"
  by (simp add: braceScan_def)

lemma braceScan_started:
  "snd (braceScan st xs) = (snd st \<or> CHR ''{'' \<in> set xs)"
proof (induction xs arbitrary: st)
  case Nil
  show ?case by (simp add: braceScan_def)
next
  case (Cons x xs)
  obtain d s where st: "st = (d, s)" by (cases st)
  have "braceScan st (x # xs) = braceScan (braceStep st x) xs"
    by (simp add: braceScan_def)
  with Cons[of "braceStep st x"] st show ?case by auto
qed

lemma braceScan_literal: "braceScan (d, True) braceLiteral = (d, True)"
  by (simp add: braceScan_def braceLiteral_def dq_def)

lemma braceScan_withLiteral:
  assumes "snd (braceScan st (take p l))"
  shows "braceScan st (withLiteral p l) = braceScan st l"
proof -
  obtain d where m: "braceScan st (take p l) = (d, True)"
    using assms by (cases "braceScan st (take p l)") auto
  have "braceScan st (withLiteral p l) = braceScan (braceScan (d, True) braceLiteral) (drop p l)"
    by (simp add: withLiteral_def braceScan_append m)
  also have "\<dots> = braceScan (braceScan st (take p l)) (drop p l)"
    by (simp add: braceScan_literal m)
  also have "\<dots> = braceScan st l"
    by (simp add: braceScan_append[symmetric])
  finally show ?thesis .
qed

lemma countJsBranches_loop_end_count:
  "snd (countJsBranches_loop i b st ls) = snd (countJsBranches_loop i b' st ls)"
  by (induction ls arbitrary: i b b' st) auto

lemma foldl_braceScan_concat: "foldl braceScan st ls = braceScan st (concat ls)"
  by (induction ls arbitrary: st) (simp_all add: braceScan_def)

lemma countJsBranches_loop_literal:
  assumes "j < length ls"
    and "snd (braceScan st (concat (take j ls) @ take p (ls ! j)))"
  shows "snd (countJsBranches_loop i b st (ls[j := withLiteral p (ls ! j)]))
         = snd (countJsBranches_loop i b st ls)"
  using assms
proof (induction ls arbitrary: i b st j)
  case Nil
  then show ?case by simp
next
  case (Cons l ls)
  show ?case
  proof (cases j)
    case 0
    with Cons.prems(2) have "snd (braceScan st (take p l))" by simp
    then have e: "braceScan st (withLiteral p l) = braceScan st l"
      by (rule braceScan_withLiteral)
    show ?thesis
      using 0 e countJsBranches_loop_end_count[of "Suc i" "b + jsBranchInc (withLiteral p l)"
          "braceScan st l" ls "b + jsBranchInc l"]
      by simp
  next
    case (Suc j')
    with Cons.prems(1) have j': "j' < length ls" by simp
    from Cons.prems(2) Suc
    have s: "snd (braceScan (braceScan st l) (concat (take j' ls) @ take p (ls ! j')))"
      by (simp add: braceScan_append)
    from Cons.IH[OF j' s] Suc show ?thesis by simp
  qed
qed

text \<open>
  C7. Take any lines and a callable scanned from line \<open>start\<close>. Put the literal
  \<^verbatim>\<open>"{ not a real brace }"\<close> anywhere in the body, that is at any place of a line
  \<open>j\<close> that comes after an opening brace of the scanned text. The scan stops at the same
  line as it does without the literal: the line of the callable's real closing brace.
\<close>

theorem body_span_ignores_brace_literal:
  assumes "start \<le> j" and "j < length lines"
    and "CHR ''{'' \<in> set (concat (take (j - start) (drop start lines)) @ take p (lines ! j))"
  shows "jsBodyEnd (lines[j := withLiteral p (lines ! j)]) start = jsBodyEnd lines start"
proof -
  let ?ls = "drop start lines"
  have j: "j - start < length ?ls" using assms(1,2) by simp
  have nth: "?ls ! (j - start) = lines ! j" using assms(1,2) by simp
  have s: "snd (braceScan (0, False) (concat (take (j - start) ?ls) @ take p (?ls ! (j - start))))"
    using assms(3) nth by (simp add: braceScan_started)
  have d: "drop start (lines[j := withLiteral p (lines ! j)])
           = ?ls[j - start := withLiteral p (?ls ! (j - start))]"
    using assms(1) nth by (simp add: drop_update_swap)
  show ?thesis
    unfolding jsBodyEnd_def d
    by (rule countJsBranches_loop_literal[OF j s])
qed

theorem body_span_ignores_brace_literal_witness:
  "jsBodyEnd [''function f() {'', withLiteral 12 ''  const s = ;'', ''  if (s) { g(); }'', ''}'',
              ''h();''] 0 = 3"
proof -
  let ?L = "[''function f() {'', ''  const s = ;'', ''  if (s) { g(); }'', ''}'', ''h();'']"
  have a: "(0::nat) \<le> 1" and b: "1 < length ?L" by simp_all
  have c: "CHR ''{'' \<in> set (concat (take (1 - 0) (drop 0 ?L)) @ take 12 (?L ! 1))"
    by simp
  have e: "jsBodyEnd ?L 0 = 3" by code_simp
  from body_span_ignores_brace_literal[OF a b c] e show ?thesis by simp
qed

section \<open>The indentation-based extractor: results\<close>

lemma getIndent_total: "\<exists>n. getIndent line = Some n"
proof (cases "rexec indentRe False line")
  case None
  then show ?thesis by (simp add: getIndent_def)
next
  case (Some m)
  have "\<exists>v. grp m 1 = Some v"
    using Some by (rule grp_mand) (simp add: indentRe_def)
  then obtain v where "grp m 1 = Some v" by blast
  with Some show ?thesis by (simp add: getIndent_def)
qed

lemma countBranches_loop_total: "\<exists>c. countBranches_loop baseIndent branches ls = Some c"
proof (induction ls arbitrary: branches)
  case Nil
  show ?case by simp
next
  case (Cons line ls)
  obtain n where n: "getIndent line = Some n" using getIndent_total by blast
  from Cons[of branches] Cons[of "branches + pyBranchInc (trim line)"] n
  show ?case by simp
qed

lemma countBranches_total:
  assumes "i < length lines"
  shows "\<exists>c. countBranches lines i = Some c"
proof -
  obtain n where n: "getIndent (lines ! i) = Some n" using getIndent_total by blast
  obtain c where "countBranches_loop n 0 (drop (Suc i) lines) = Some c"
    using countBranches_loop_total by blast
  with assms n show ?thesis by (simp add: countBranches_def nth_opt_def)
qed

lemma asRe_empty: "rmatch asRe False (None, [], []) [] = []"
  by code_simp

lemma importedName_total: "\<exists>x. importedName n = Some x"
proof -
  from rsplit_empty_total[of asRe False "trim n"] asRe_empty
  obtain x where "first (rsplit asRe False (trim n)) = Some x" by auto
  then show ?thesis by (simp add: importedName_def)
qed

lemma parseImports_line_total: "\<exists>xs. parseImports_line i l = Some xs"
proof (cases "rexec fromImportRe False (trim l)")
  case (Some m)
  have "\<exists>v. grp m 1 = Some v" using Some by (rule grp_mand) (simp add: fromImportRe_def)
  then obtain g1 where g1: "grp m 1 = Some g1" by blast
  have "\<exists>v. grp m 2 = Some v" using Some by (rule grp_mand) (simp add: fromImportRe_def)
  then obtain g2 where g2: "grp m 2 = Some g2" by blast
  obtain names where "mapM importedName (splitOn CHR '','' g2) = Some names"
    using mapM_total[of importedName] importedName_total by blast
  with Some g1 g2 show ?thesis by (simp add: parseImports_line_def Let_def)
next
  case None
  show ?thesis
  proof (cases "rexec plainImportRe False (trim l)")
    case none: None
    with None show ?thesis by (simp add: parseImports_line_def Let_def)
  next
    case (Some m)
    have "\<exists>v. grp m 1 = Some v" using Some by (rule grp_mand) (simp add: plainImportRe_def)
    then obtain g1 where g1: "grp m 1 = Some g1" by blast
    obtain mods where "mapM importedName (splitOn CHR '','' g1) = Some mods"
      using mapM_total[of importedName] importedName_total by blast
    with None Some g1 show ?thesis by (simp add: parseImports_line_def Let_def)
  qed
qed

lemma parseImports_total: "\<exists>xs. parseImports lines = Some xs"
  unfolding parseImports_def by (rule forLines_total) (rule parseImports_line_total)

lemma parseClassAttributes_step_total: "\<exists>r. parseClassAttributes_step classIndent attrs i line = Some r"
proof -
  obtain n where n: "getIndent line = Some n" using getIndent_total by blast
  show ?thesis
  proof (cases "rexec selfAttrRe False line")
    case None
    with n show ?thesis by (simp add: parseClassAttributes_step_def)
  next
    case (Some m)
    have "\<exists>v. grp m 1 = Some v" using Some by (rule grp_mand) (simp add: selfAttrRe_def)
    then obtain g1 where "grp m 1 = Some g1" by blast
    with Some n show ?thesis by (simp add: parseClassAttributes_step_def)
  qed
qed

lemma parseClassAttributes_total:
  assumes "i < length lines"
  shows "\<exists>attrs. parseClassAttributes lines i = Some attrs"
proof -
  obtain n where n: "getIndent (lines ! i) = Some n" using getIndent_total by blast
  obtain t where "foldLines (parseClassAttributes_step n) [] (Suc i) (drop (Suc i) lines) = Some t"
    using foldLines_total[of "parseClassAttributes_step n"] parseClassAttributes_step_total by blast
  with assms n show ?thesis by (simp add: parseClassAttributes_def nth_opt_def)
qed

lemma parseClassMethods_step_total:
  assumes "i < length lines"
  shows "\<exists>r. parseClassMethods_step lines classIndent i line = Some r"
proof -
  obtain n where n: "getIndent line = Some n" using getIndent_total by blast
  show ?thesis
  proof (cases "rexec methodDefRe False line")
    case None
    with n show ?thesis by (simp add: parseClassMethods_step_def)
  next
    case (Some m)
    have "\<exists>v. grp m 3 = Some v" using Some by (rule grp_mand) (simp add: methodDefRe_def)
    then obtain g3 where g3: "grp m 3 = Some g3" by blast
    have "\<exists>v. grp m 4 = Some v" using Some by (rule grp_mand) (simp add: methodDefRe_def)
    then obtain g4 where g4: "grp m 4 = Some g4" by blast
    obtain c where "countBranches lines i = Some c" using countBranches_total[OF assms] by blast
    with Some n g3 g4 show ?thesis by (simp add: parseClassMethods_step_def)
  qed
qed

lemma parseClassMethods_total:
  assumes "i < length lines"
  shows "\<exists>ms. parseClassMethods lines i = Some ms"
proof -
  obtain n where n: "getIndent (lines ! i) = Some n" using getIndent_total by blast
  have "\<exists>ys. loopLines (parseClassMethods_step lines n) (Suc i) (drop (Suc i) lines) = Some ys"
  proof (rule loopLines_total_idx)
    fix j assume "j < length (drop (Suc i) lines)"
    then have "Suc i + j < length lines" by simp
    then show "\<exists>r. parseClassMethods_step lines n (Suc i + j) (drop (Suc i) lines ! j) = Some r"
      by (rule parseClassMethods_step_total)
  qed
  with assms n show ?thesis by (auto simp: parseClassMethods_def nth_opt_def)
qed

lemma parseClasses_line_total:
  assumes "i < length lines"
  shows "\<exists>cs. parseClasses_line lines i line = Some cs"
proof (cases "rexec classRe False line")
  case None
  then show ?thesis by (simp add: parseClasses_line_def)
next
  case (Some m)
  have "\<exists>v. grp m 1 = Some v" using Some by (rule grp_mand) (simp add: classRe_def)
  then obtain g1 where g1: "grp m 1 = Some g1" by blast
  obtain ms where ms: "parseClassMethods lines i = Some ms"
    using parseClassMethods_total[OF assms] by blast
  obtain attrs where "parseClassAttributes lines i = Some attrs"
    using parseClassAttributes_total[OF assms] by blast
  with Some g1 ms show ?thesis by (simp add: parseClasses_line_def)
qed

lemma parseClasses_total: "\<exists>cs. parseClasses lines = Some cs"
  unfolding parseClasses_def
proof (rule forLines_total_idx)
  fix j assume "j < length lines"
  then have "0 + j < length lines" by simp
  then show "\<exists>xs. parseClasses_line lines (0 + j) (lines ! j) = Some xs"
    by (rule parseClasses_line_total)
qed

lemma parseTopLevelFunctions_line_total:
  assumes "i < length lines"
  shows "\<exists>fs. parseTopLevelFunctions_line lines i line = Some fs"
proof (cases "rexec funcDefRe False line")
  case None
  then show ?thesis by (simp add: parseTopLevelFunctions_line_def)
next
  case (Some m)
  have "\<exists>v. grp m 2 = Some v" using Some by (rule grp_mand) (simp add: funcDefRe_def)
  then obtain g2 where g2: "grp m 2 = Some g2" by blast
  have "\<exists>v. grp m 3 = Some v" using Some by (rule grp_mand) (simp add: funcDefRe_def)
  then obtain g3 where g3: "grp m 3 = Some g3" by blast
  obtain c where "countBranches lines i = Some c" using countBranches_total[OF assms] by blast
  with Some g2 g3 show ?thesis by (simp add: parseTopLevelFunctions_line_def)
qed

lemma parseTopLevelFunctions_total: "\<exists>fs. parseTopLevelFunctions lines = Some fs"
  unfolding parseTopLevelFunctions_def
proof (rule forLines_total_idx)
  fix j assume "j < length lines"
  then have "0 + j < length lines" by simp
  then show "\<exists>xs. parseTopLevelFunctions_line lines (0 + j) (lines ! j) = Some xs"
    by (rule parseTopLevelFunctions_line_total)
qed

lemma parseGlobalVars_line_total: "\<exists>vs. parseGlobalVars_line i line = Some vs"
proof -
  obtain n where n: "getIndent line = Some n" using getIndent_total by blast
  show ?thesis
  proof (cases "rexec constRe False line")
    case None
    with n show ?thesis by (simp add: parseGlobalVars_line_def)
  next
    case (Some m)
    have "\<exists>v. grp m 1 = Some v" using Some by (rule grp_mand) (simp add: constRe_def)
    then obtain g1 where g1: "grp m 1 = Some g1" by blast
    have "\<exists>v. grp m 3 = Some v" using Some by (rule grp_mand) (simp add: constRe_def)
    then obtain g3 where "grp m 3 = Some g3" by blast
    with Some n g1 show ?thesis by (simp add: parseGlobalVars_line_def)
  qed
qed

lemma parseGlobalVars_total: "\<exists>vs. parseGlobalVars lines = Some vs"
  unfolding parseGlobalVars_def by (rule forLines_total) (rule parseGlobalVars_line_total)

lemma parseDebugPoints_total: "\<exists>ds. parseDebugPoints lines = Some ds"
  unfolding parseDebugPoints_def
  by (rule forLines_total) (simp add: parseDebugPoints_line_def Let_def)

lemma py_metaLine_total: "\<exists>raw'. py_metaLine raw line = Some raw'"
proof (cases "rexec py_kvRe False (rreplace hashPrefixRe False [] line)")
  case None
  then show ?thesis by (simp add: py_metaLine_def)
next
  case (Some m)
  have "\<exists>v. grp m 1 = Some v" using Some by (rule grp_mand) (simp add: py_kvRe_def)
  then obtain g1 where g1: "grp m 1 = Some g1" by blast
  have "\<exists>v. grp m 2 = Some v" using Some by (rule grp_mand) (simp add: py_kvRe_def)
  then obtain g2 where "grp m 2 = Some g2" by blast
  with Some g1 show ?thesis by (simp add: py_metaLine_def)
qed

lemma py_parseMetaBlock_total: "\<exists>meta. py_parseMetaBlock code = Some meta"
proof (cases "rexec py_metaRe False code")
  case None
  then show ?thesis by (simp add: py_parseMetaBlock_def)
next
  case (Some m)
  have "\<exists>v. grp m 1 = Some v" using Some by (rule grp_mand) (simp add: py_metaRe_def)
  then obtain block where b: "grp m 1 = Some block" by blast
  obtain raw where "foldM py_metaLine [] (splitOn LF block) = Some raw"
    using foldM_total[of py_metaLine] py_metaLine_total by blast
  with Some b show ?thesis by (simp add: py_parseMetaBlock_def)
qed

end
